theory Spec2Isabelle
  imports Complex_Main "HOL-Library.Sublist"
begin

section \<open>JavaScript values\<close>

text \<open>
  The frontend works on values decoded from JSON and on React state. A value is one of
  the JSON shapes, or \<open>undefined\<close>, or \<open>NaN\<close> (which \<open>parseInt\<close> can produce).
  A number is the real number the double stands for. An object is the list of its own
  properties in insertion order; its keys are distinct, as in JavaScript.
\<close>

datatype jsval =
    JUndefined
  | JNull
  | JBool bool
  | JNum real
  | JNaN
  | JStr string
  | JArr "jsval list"
  | JObj "(string \<times> jsval) list"

datatype js_error = TypeError

text \<open>Truthiness, as \<open>!v\<close>, \<open>v && e\<close>, \<open>v || e\<close> and \<open>v ? a : b\<close> test it.\<close>

fun truthy :: "jsval \<Rightarrow> bool" where
  "truthy JUndefined = False"
| "truthy JNull = False"
| "truthy (JBool b) = b"
| "truthy (JNum n) = (n \<noteq> 0)"
| "truthy JNaN = False"
| "truthy (JStr s) = (s \<noteq> [])"
| "truthy (JArr xs) = True"
| "truthy (JObj kvs) = True"

fun typeof :: "jsval \<Rightarrow> string" where
  "typeof JUndefined = ''undefined''"
| "typeof JNull = ''object''"
| "typeof (JBool b) = ''boolean''"
| "typeof (JNum n) = ''number''"
| "typeof JNaN = ''number''"
| "typeof (JStr s) = ''string''"
| "typeof (JArr xs) = ''object''"
| "typeof (JObj kvs) = ''object''"

text \<open>\<open>a || b\<close> and \<open>a && b\<close> on values.\<close>

definition js_or :: "jsval \<Rightarrow> jsval \<Rightarrow> jsval" where
  "js_or a b = (if truthy a then a else b)"

definition js_and :: "jsval \<Rightarrow> jsval \<Rightarrow> jsval" where
  "js_and a b = (if truthy a then b else a)"

text \<open>
  \<open>v.k\<close> for a named property \<open>k\<close> of a value that is neither \<open>null\<close> nor
  \<open>undefined\<close>: an own property of an object, the \<open>length\<close> of an array or a string,
  \<open>undefined\<close> otherwise. The source reads properties by fixed identifiers only,
  never by index and never one that \<open>Object.prototype\<close> supplies, so index properties
  and inherited properties are not needed here.
\<close>

fun prop_of :: "jsval \<Rightarrow> string \<Rightarrow> jsval" where
  "prop_of (JObj kvs) k = (case map_of kvs k of Some v \<Rightarrow> v | None \<Rightarrow> JUndefined)"
| "prop_of (JArr xs) k = (if k = ''length'' then JNum (real (length xs)) else JUndefined)"
| "prop_of (JStr s) k = (if k = ''length'' then JNum (real (length s)) else JUndefined)"
| "prop_of v k = JUndefined"

text \<open>\<open>v.k\<close> in general: reading a property of \<open>null\<close> or \<open>undefined\<close> throws.\<close>

fun getProp :: "jsval \<Rightarrow> string \<Rightarrow> js_error + jsval" where
  "getProp JUndefined k = Inl TypeError"
| "getProp JNull k = Inl TypeError"
| "getProp v k = Inr (prop_of v k)"

text \<open>Decimal digits of a natural number, for array indices as keys and for \<open>toFixed\<close>.\<close>

definition digit_char :: "nat \<Rightarrow> char" where
  "digit_char n = ''0123456789'' ! n"

fun show_nat :: "nat \<Rightarrow> string" where
  "show_nat n =
     (if n < 10 then [digit_char n]
      else show_nat (n div 10) @ [digit_char (n mod 10)])"

declare show_nat.simps [simp del]

text \<open>\<open>Object.keys(v)\<close> for a value that is neither \<open>null\<close> nor \<open>undefined\<close>.\<close>

fun object_keys :: "jsval \<Rightarrow> string list" where
  "object_keys (JObj kvs) = map fst kvs"
| "object_keys (JArr xs) = map show_nat [0..<length xs]"
| "object_keys (JStr s) = map show_nat [0..<length s]"
| "object_keys v = []"

text \<open>\<open>Object.entries(v)\<close>, likewise.\<close>

fun object_entries :: "jsval \<Rightarrow> (string \<times> jsval) list" where
  "object_entries (JObj kvs) = kvs"
| "object_entries (JArr xs) = zip (map show_nat [0..<length xs]) xs"
| "object_entries (JStr s) = zip (map show_nat [0..<length s]) (map (\<lambda>c. JStr [c]) s)"
| "object_entries v = []"

text \<open>
  \<open>Number.prototype.toFixed(d)\<close> on a number below \<open>10^21\<close>: the integer \<open>n\<close> nearest to
  \<open>x * 10^d\<close> (the larger one on a tie), written with \<open>d\<close> decimals; a negative \<open>x\<close>
  is written as \<open>-\<close> followed by the digits of \<open>-x\<close>.
\<close>

definition pad_zeros :: "nat \<Rightarrow> string \<Rightarrow> string" where
  "pad_zeros w s = replicate (w - length s) (CHR ''0'') @ s"

definition toFixed :: "nat \<Rightarrow> real \<Rightarrow> string" where
  "toFixed d x =
     (let n = nat \<lfloor>\<bar>x\<bar> * 10 ^ d + 1 / 2\<rfloor>;
          ds = pad_zeros (d + 1) (show_nat n);
          whole = take (length ds - d) ds;
          frac = drop (length ds - d) ds
      in (if x < 0 then ''-'' else '''') @ whole @ (if d = 0 then '''' else ''.'' @ frac))"

text \<open>
  The library functions the source calls and this development does not define:
  \<open>String.prototype.toUpperCase\<close>, \<open>moment(v).format(pattern)\<close>, the string
  conversion of a template literal \<open>`${v}`\<close>, \<open>parseInt\<close>, the conversion of
  a string, an array or an object to a number in a comparison, and the product and
  the sum of two numbers, which JavaScript rounds to the nearest double.
\<close>

record js_lib =
  toUpperCase :: "string \<Rightarrow> string"
  momentFormat :: "string \<Rightarrow> jsval \<Rightarrow> string"
  toStr :: "jsval \<Rightarrow> string"
  parseInt :: "jsval \<Rightarrow> jsval"
  toNumber :: "jsval \<Rightarrow> jsval"
  num_times :: "real \<Rightarrow> real \<Rightarrow> real"
  num_plus :: "real \<Rightarrow> real \<Rightarrow> real"

text \<open>
  A template literal \<open>`${v}`\<close> leaves a string as it is and converts any other value.
\<close>

definition template :: "js_lib \<Rightarrow> jsval \<Rightarrow> string" where
  "template lib v = (case v of JStr s \<Rightarrow> s | _ \<Rightarrow> toStr lib v)"

text \<open>
  \<open>x.toFixed(d)\<close> for every number: from \<open>10^21\<close> on, the digits are those of the string
  conversion of the magnitude.
\<close>

definition toFixed_js :: "js_lib \<Rightarrow> nat \<Rightarrow> real \<Rightarrow> string" where
  "toFixed_js lib d x =
     (if \<bar>x\<bar> < 10 ^ 21 then toFixed d x
      else (if x < 0 then ''-'' else []) @ toStr lib (JNum \<bar>x\<bar>))"

text \<open>Sequencing of computations that can throw.\<close>

definition bindE :: "js_error + 'a \<Rightarrow> ('a \<Rightarrow> js_error + 'b) \<Rightarrow> js_error + 'b" where
  "bindE m f = (case m of Inl e \<Rightarrow> Inl e | Inr x \<Rightarrow> f x)"

fun mapE :: "('a \<Rightarrow> js_error + 'b) \<Rightarrow> 'a list \<Rightarrow> js_error + 'b list" where
  "mapE f [] = Inr []"
| "mapE f (x # xs) = bindE (f x) (\<lambda>y. bindE (mapE f xs) (\<lambda>ys. Inr (y # ys)))"

section \<open>SignalDisplay (components/SignalDisplay.js)\<close>

text \<open>
  \<open>hasValidData = signal && typeof signal === 'object' && !signal.error &&
  Object.keys(signal).length > 0\<close>, read as the condition of \<open>if (!hasValidData)\<close>.
\<close>

definition hasValidData :: "jsval \<Rightarrow> bool" where
  "hasValidData signal \<longleftrightarrow>
     truthy signal \<and> typeof signal = ''object'' \<and> \<not> truthy (prop_of signal ''error'') \<and>
     length (object_keys signal) > 0"

definition getSignalClass :: "jsval \<Rightarrow> string" where
  "getSignalClass action =
     (if \<not> truthy action then ''hold-signal''
      else if action = JStr ''BUY'' then ''buy-signal''
      else if action = JStr ''SELL'' then ''sell-signal''
      else ''hold-signal'')"

definition getStrengthClass :: "jsval \<Rightarrow> string" where
  "getStrengthClass strength = (if strength = JStr ''STRONG'' then ''strong-signal'' else [])"

definition getSignalIndicator :: "jsval \<Rightarrow> string" where
  "getSignalIndicator action =
     (if \<not> truthy action then ''hold''
      else if action = JStr ''BUY'' then ''buy''
      else if action = JStr ''SELL'' then ''sell''
      else ''hold'')"

text \<open>
  \<open>v?.toFixed(d)\<close>: \<open>undefined\<close> for \<open>null\<close> and \<open>undefined\<close>, the decimal string for a
  number, and a TypeError for every other value, which has no callable \<open>toFixed\<close>.
\<close>

fun toFixed_opt :: "js_lib \<Rightarrow> nat \<Rightarrow> jsval \<Rightarrow> js_error + jsval" where
  "toFixed_opt lib d JUndefined = Inr JUndefined"
| "toFixed_opt lib d JNull = Inr JUndefined"
| "toFixed_opt lib d (JNum n) = Inr (JStr (toFixed_js lib d n))"
| "toFixed_opt lib d JNaN = Inr (JStr ''NaN'')"
| "toFixed_opt lib d v = Inl TypeError"

text \<open>\<open>v?.toFixed(d) || 'N/A'\<close>.\<close>

definition fixed_or_na :: "js_lib \<Rightarrow> nat \<Rightarrow> jsval \<Rightarrow> js_error + jsval" where
  "fixed_or_na lib d v = bindE (toFixed_opt lib d v) (\<lambda>t. Inr (js_or t (JStr ''N/A'')))"

text \<open>
  The truth of \<open>value && value.includes && value.includes(s)\<close>: substring search on a
  string, membership on an array; an object whose own \<open>includes\<close> property is truthy
  is called and is not a function.
\<close>

fun value_includes :: "jsval \<Rightarrow> string \<Rightarrow> js_error + bool" where
  "value_includes (JStr t) s = Inr (t \<noteq> [] \<and> sublist s t)"
| "value_includes (JArr xs) s = Inr (JStr s \<in> set xs)"
| "value_includes (JObj kvs) s =
     (if truthy (prop_of (JObj kvs) ''includes'') then Inl TypeError else Inr False)"
| "value_includes v s = Inr False"

record breakdown_row =
  row_label :: string
  row_bg :: string
  row_text :: jsval

definition breakdown_item :: "js_lib \<Rightarrow> string \<times> jsval \<Rightarrow> js_error + breakdown_row" where
  "breakdown_item lib kv =
     (case kv of (key, val) \<Rightarrow>
        bindE (value_includes val ''BUY'') (\<lambda>buy.
        bindE (if buy then Inr False else value_includes val ''SELL'') (\<lambda>sell.
        Inr \<lparr> row_label = toUpperCase lib (take 1 key) @ drop 1 key,
              row_bg = (if buy then ''success'' else if sell then ''danger'' else ''secondary''),
              row_text = js_or val (JStr ''NEUTRAL'') \<rparr>)))"

text \<open>
  What \<open>signal.signals && typeof signal.signals === 'object' &&
  Object.entries(signal.signals).map(...)\<close> evaluates to: the value at which the
  conjunction stops, or the rows.
\<close>

datatype breakdown = BreakdownValue jsval | BreakdownRows "breakdown_row list"

definition signal_breakdown :: "js_lib \<Rightarrow> jsval \<Rightarrow> js_error + breakdown" where
  "signal_breakdown lib signals =
     (if \<not> truthy signals then Inr (BreakdownValue signals)
      else if typeof signals \<noteq> ''object'' then Inr (BreakdownValue (JBool False))
      else bindE (mapE (breakdown_item lib) (object_entries signals))
             (\<lambda>rows. Inr (BreakdownRows rows)))"

definition key_indicator_cells :: "js_lib \<Rightarrow> jsval \<Rightarrow> js_error + jsval list option" where
  "key_indicator_cells lib indicators =
     (if truthy indicators \<and> typeof indicators = ''object'' then
        bindE (fixed_or_na lib 2 (prop_of indicators ''rsi_14'')) (\<lambda>rsi.
        bindE (fixed_or_na lib 4 (prop_of indicators ''macd'')) (\<lambda>macd.
        bindE (fixed_or_na lib 4 (prop_of indicators ''macd_signal'')) (\<lambda>sig.
        bindE (fixed_or_na lib 4 (prop_of indicators ''macd_histogram'')) (\<lambda>hist.
        Inr (Some [rsi, macd, sig, hist])))))
      else Inr None)"

record signal_card =
  title_timeframe :: string
  title_timestamp :: string
  indicator_className :: string
  action_className :: string
  action_text :: jsval
  strength_text :: string
  current_price_text :: jsval
  stop_loss_text :: jsval
  take_profit_text :: jsval
  breakdown_list :: breakdown
  no_breakdown :: bool
  key_indicators :: "jsval list option"

datatype signal_view = NoSignalData | SignalCard signal_card

text \<open>
  The component: the fallback card, or the signal card with every expression of its
  JSX evaluated. \<open>timeframe.toUpperCase()\<close> throws when \<open>signal.timeframe\<close> is a truthy
  value that is not a string.
\<close>

definition SignalDisplay :: "js_lib \<Rightarrow> jsval \<Rightarrow> js_error + signal_view" where
  "SignalDisplay lib signal =
     (if \<not> hasValidData signal then Inr NoSignalData
      else
        let timeframe = js_or (prop_of signal ''timeframe'') (JStr ''Unknown'');
            formattedTimestamp =
              (if truthy (prop_of signal ''timestamp'')
               then momentFormat lib ''MM/DD/YYYY HH:mm:ss'' (prop_of signal ''timestamp'')
               else ''No timestamp available'');
            action = prop_of signal ''action'';
            strength = prop_of signal ''signal_strength'';
            signals = prop_of signal ''signals''
        in
        bindE (case timeframe of JStr s \<Rightarrow> Inr (toUpperCase lib s) | _ \<Rightarrow> Inl TypeError) (\<lambda>upper.
        bindE (fixed_or_na lib 2 (prop_of signal ''current_price'')) (\<lambda>price.
        bindE (fixed_or_na lib 2 (prop_of signal ''stop_loss'')) (\<lambda>sl.
        bindE (fixed_or_na lib 2 (prop_of signal ''take_profit'')) (\<lambda>tp.
        bindE (signal_breakdown lib signals) (\<lambda>rows.
        bindE (key_indicator_cells lib (prop_of signal ''indicators'')) (\<lambda>cells.
        Inr (SignalCard
          \<lparr> title_timeframe = upper,
            title_timestamp = formattedTimestamp,
            indicator_className = ''signal-indicator '' @ getSignalIndicator action,
            action_className = getSignalClass action @ '' '' @ getStrengthClass strength,
            action_text = js_or action (JStr ''HOLD''),
            strength_text = (if truthy strength then ''- '' @ template lib strength else []),
            current_price_text = price,
            stop_loss_text = sl,
            take_profit_text = tp,
            breakdown_list = rows,
            no_breakdown = (\<not> truthy signals \<or> typeof signals \<noteq> ''object'' \<or>
                            length (object_keys signals) = 0),
            key_indicators = cells \<rparr>))))))))"

text \<open>
  A stand-in for the library functions, for evaluating the definitions on examples:
  upper case on ASCII letters, a date format that returns a string as it is, and exact
  products and sums, which are those of the doubles wherever the exact result is a
  double, as it is in every example below.
\<close>

definition ascii_upper :: "char \<Rightarrow> char" where
  "ascii_upper c =
     (case map_of (zip ''abcdefghijklmnopqrstuvwxyz'' ''ABCDEFGHIJKLMNOPQRSTUVWXYZ'') c of
        Some u \<Rightarrow> u
      | None \<Rightarrow> c)"

definition ascii_lib :: js_lib where
  "ascii_lib =
     \<lparr> toUpperCase = map ascii_upper,
       momentFormat = (\<lambda>pattern v. case v of JStr s \<Rightarrow> s | _ \<Rightarrow> ''Invalid date''),
       toStr = (\<lambda>v. case v of JStr s \<Rightarrow> s | _ \<Rightarrow> ''[object Object]''),
       parseInt = (\<lambda>v. case v of JNum n \<Rightarrow> JNum (real_of_int \<lfloor>n\<rfloor>) | _ \<Rightarrow> JNaN),
       toNumber = (\<lambda>v. case v of JNum n \<Rightarrow> JNum n | _ \<Rightarrow> JNaN),
       num_times = (\<lambda>x y. x * y),
       num_plus = (\<lambda>x y. x + y) \<rparr>"

section \<open>PriceChart (components/PriceChart.js)\<close>

text \<open>\<open>Array.isArray\<close> and the elements of an array.\<close>

fun isArray :: "jsval \<Rightarrow> bool" where
  "isArray (JArr xs) = True"
| "isArray v = False"








section \<open>The API client (services/api.js)\<close>

text \<open>A default parameter value replaces \<open>undefined\<close> only.\<close>

definition default_arg :: "jsval \<Rightarrow> jsval \<Rightarrow> jsval" where
  "default_arg v d = (if v = JUndefined then d else v)"



text \<open>The endpoints, each with the arguments it is called with.\<close>

datatype api_call =
    getPriceData jsval jsval
  | getIndicators jsval jsval
  | updateData
  | getPredictions jsval
  | getSignal jsval
  | getAllSignals
  | getZerodhaLoginUrl
  | zerodhaCallback jsval
  | getZerodhaProfile
  | getZerodhaMargins
  | getZerodhaHoldings
  | getZerodhaPositions
  | getZerodhaOrders
  | getZerodhaOrder jsval
  | placeZerodhaOrder jsval
  | cancelZerodhaOrder jsval
  | placeTradeFromSignal jsval





text \<open>
  The backend as the frontend sees it: each call resolves with a response whose
  \<open>data\<close> is given, or rejects. The reply may depend on every call made before.
  The calls a handler makes are appended to a log.
\<close>

datatype reply = Resolved jsval | Rejected

type_synonym server = "api_call list \<Rightarrow> api_call \<Rightarrow> reply"

section \<open>ZerodhaAuth (pages/ZerodhaAuth.js)\<close>

record auth_state =
  auth_loading :: bool
  auth_error :: "string option"
  auth_success :: bool
  auth_redirect :: "(nat \<times> string) option"

definition auth_init :: auth_state where
  "auth_init = \<lparr> auth_loading = True, auth_error = None, auth_success = False,
                 auth_redirect = None \<rparr>"

text \<open>
  \<open>URLSearchParams.get\<close> on the parsed query of \<open>location.search\<close>: the first value
  under the name, or \<open>null\<close>. The query is given as its list of name-value pairs.
\<close>

definition params_get :: "(string \<times> string) list \<Rightarrow> string \<Rightarrow> jsval" where
  "params_get params name = (case map_of params name of Some v \<Rightarrow> JStr v | None \<Rightarrow> JNull)"

definition handleAuth ::
  "server \<Rightarrow> (string \<times> string) list \<Rightarrow> auth_state \<times> api_call list \<Rightarrow> auth_state \<times> api_call list" where
  "handleAuth srv params w =
     (case w of (st, calls) \<Rightarrow>
        let requestToken = params_get params ''request_token'' in
        if \<not> truthy requestToken then
          (st \<lparr> auth_error := Some ''No request token found in the URL. Authentication failed.'',
                auth_loading := False \<rparr>, calls)
        else
          (case srv calls (zerodhaCallback requestToken) of
             Resolved d \<Rightarrow>
               (st \<lparr> auth_success := True, auth_loading := False,
                     auth_redirect := Some (3000, ''/trading'') \<rparr>,
                calls @ [zerodhaCallback requestToken])
           | Rejected \<Rightarrow>
               (st \<lparr> auth_error := Some ''Failed to authenticate with Zerodha. Please try again later.'',
                     auth_loading := False \<rparr>,
                calls @ [zerodhaCallback requestToken])))"

section \<open>The timeframe selectors\<close>

text \<open>
  Every page offers the same four timeframes: four buttons (Dashboard, PriceData,
  Predictions, Signals) or four \<open>option\<close> elements (Trading). A selection hands the
  handler the value written in the JSX.
\<close>

datatype timeframe_choice = Choice1h | Choice4h | Choice1d | Choice1w

fun choice_value :: "timeframe_choice \<Rightarrow> string" where
  "choice_value Choice1h = ''1h''"
| "choice_value Choice4h = ''4h''"
| "choice_value Choice1d = ''1d''"
| "choice_value Choice1w = ''1w''"

section \<open>Predictions (pages/Predictions.js)\<close>

text \<open>\<open>v > 0\<close>.\<close>

definition greater_than_zero :: "js_lib \<Rightarrow> jsval \<Rightarrow> bool" where
  "greater_than_zero lib v =
     (case v of
        JNum n \<Rightarrow> n > 0
      | JNaN \<Rightarrow> False
      | JUndefined \<Rightarrow> False
      | JNull \<Rightarrow> False
      | JBool b \<Rightarrow> b
      | _ \<Rightarrow> (case toNumber lib v of JNum n \<Rightarrow> n > 0 | _ \<Rightarrow> False))"

record accuracy_metrics =
  mae :: string
  mse :: string
  rmse :: string
  accuracy :: string

record predictions_state =
  pred_loading :: bool
  pred_error :: "string option"
  pred_priceData :: jsval
  pred_predictions :: jsval
  pred_selectedTimeframe :: jsval
  pred_accuracy :: "accuracy_metrics option"

definition pred_init :: predictions_state where
  "pred_init =
     \<lparr> pred_loading = True, pred_error = None, pred_priceData = JArr [],
       pred_predictions = JArr [], pred_selectedTimeframe = JStr ''1h'',
       pred_accuracy = None \<rparr>"

text \<open>
  \<open>Math.random()\<close> is the sequence \<open>rnd\<close> of its results, each in \<open>[0, 1)\<close>, and the
  number \<open>k\<close> of draws made so far; a draw returns \<open>rnd k\<close>. The metrics are built from
  four draws, in the order the object literal lists them; the products and the sum are
  those of the doubles.
\<close>

definition random_accuracy :: "js_lib \<Rightarrow> (nat \<Rightarrow> real) \<Rightarrow> nat \<Rightarrow> accuracy_metrics" where
  "random_accuracy lib rnd k =
     \<lparr> mae = toFixed_js lib 2 (num_times lib (rnd k) 10),
       mse = toFixed_js lib 2 (num_times lib (rnd (k + 1)) 100),
       rmse = toFixed_js lib 2 (num_times lib (rnd (k + 2)) 15),
       accuracy = toFixed_js lib 2 (num_plus lib 75 (num_times lib (rnd (k + 3)) 15)) \<rparr>"

definition pred_failed :: "predictions_state \<Rightarrow> predictions_state" where
  "pred_failed st =
     st \<lparr> pred_error := Some ''Failed to load predictions. Please try again later.'',
          pred_loading := False \<rparr>"

definition pred_fetchData ::
  "js_lib \<Rightarrow> server \<Rightarrow> (nat \<Rightarrow> real) \<Rightarrow> predictions_state \<times> api_call list \<times> nat
     \<Rightarrow> predictions_state \<times> api_call list \<times> nat" where
  "pred_fetchData lib srv rnd w =
     (case w of (st, calls, k) \<Rightarrow>
        let st1 = st \<lparr> pred_loading := True, pred_error := None \<rparr>;
            c1 = getPriceData (pred_selectedTimeframe st) (JNum 100);
            c2 = getPredictions (pred_selectedTimeframe st)
        in
        case srv calls c1 of
          Rejected \<Rightarrow> (pred_failed st1, calls @ [c1], k)
        | Resolved price \<Rightarrow>
            let st2 = st1 \<lparr> pred_priceData := price \<rparr> in
            (case srv (calls @ [c1]) c2 of
               Rejected \<Rightarrow> (pred_failed st2, calls @ [c1, c2], k)
             | Resolved preds \<Rightarrow>
                 let st3 = st2 \<lparr> pred_predictions := preds \<rparr> in
                 if truthy preds \<and> greater_than_zero lib (prop_of preds ''length'')
                 then (st3 \<lparr> pred_accuracy := Some (random_accuracy lib rnd k),
                             pred_loading := False \<rparr>, calls @ [c1, c2], k + 4)
                 else (st3 \<lparr> pred_loading := False \<rparr>, calls @ [c1, c2], k)))"

text \<open>
  The page's events: the mount and the Refresh button run \<open>fetchData\<close>; a timeframe
  button sets \<open>selectedTimeframe\<close>, and the effect runs \<open>fetchData\<close> when the value has
  changed. A handler runs to its end before the next event.
\<close>

datatype predictions_event = PredMount | PredRefresh | PredTimeframe timeframe_choice

definition pred_step ::
  "js_lib \<Rightarrow> server \<Rightarrow> (nat \<Rightarrow> real) \<Rightarrow> predictions_state \<times> api_call list \<times> nat
     \<Rightarrow> predictions_event \<Rightarrow> predictions_state \<times> api_call list \<times> nat" where
  "pred_step lib srv rnd w ev =
     (case w of (st, calls, k) \<Rightarrow>
        case ev of
          PredMount \<Rightarrow> pred_fetchData lib srv rnd w
        | PredRefresh \<Rightarrow> pred_fetchData lib srv rnd w
        | PredTimeframe ch \<Rightarrow>
            if pred_selectedTimeframe st = JStr (choice_value ch) then w
            else pred_fetchData lib srv rnd
                   (st \<lparr> pred_selectedTimeframe := JStr (choice_value ch) \<rparr>, calls, k))"

section \<open>Trading (pages/Trading.js)\<close>

record zerodha_status =
  isLoggedIn :: bool
  profile :: jsval
  margins :: jsval

text \<open>
  \<open>tradeForm\<close> is an object updated under computed keys (\<open>[name]: ...\<close>): a function
  from property names to values, \<open>undefined\<close> where no property is set.
\<close>

record trading_state =
  tr_loading :: bool
  tr_submitting :: bool
  tr_error :: "string option"
  tr_success :: "string option"
  tr_signal :: jsval
  tr_zerodhaStatus :: zerodha_status
  tr_orders :: jsval
  tr_positions :: jsval
  tr_tradeForm :: "string \<Rightarrow> jsval"
  tr_href :: "jsval option"

definition not_logged_in :: zerodha_status where
  "not_logged_in = \<lparr> isLoggedIn = False, profile = JNull, margins = JNull \<rparr>"

definition tradeForm_init :: "string \<Rightarrow> jsval" where
  "tradeForm_init =
     (\<lambda>k. JUndefined)
       (''timeframe'' := JStr ''1h'', ''quantity'' := JNum 1, ''orderType'' := JStr ''MARKET'',
        ''stopLoss'' := JNull, ''takeProfit'' := JNull, ''useSignalLevels'' := JBool True)"

definition trading_init :: trading_state where
  "trading_init =
     \<lparr> tr_loading = True, tr_submitting = False, tr_error = None, tr_success = None,
       tr_signal = JObj [], tr_zerodhaStatus = not_logged_in, tr_orders = JArr [],
       tr_positions = JArr [], tr_tradeForm = tradeForm_init, tr_href = None \<rparr>"

text \<open>The inner \<open>try\<close> of \<open>fetchData\<close>: the login status, margins, orders and positions.\<close>

definition fetch_account ::
  "server \<Rightarrow> trading_state \<times> api_call list \<Rightarrow> trading_state \<times> api_call list" where
  "fetch_account srv w =
     (case w of (st, calls) \<Rightarrow>
        case srv calls getZerodhaProfile of
          Rejected \<Rightarrow> (st \<lparr> tr_zerodhaStatus := not_logged_in \<rparr>, calls @ [getZerodhaProfile])
        | Resolved p \<Rightarrow>
            let stp = st \<lparr> tr_zerodhaStatus :=
                          \<lparr> isLoggedIn = True, profile = p, margins = JUndefined \<rparr> \<rparr>;
                callsp = calls @ [getZerodhaProfile]
            in
            (case srv callsp getZerodhaMargins of
               Rejected \<Rightarrow>
                 (stp \<lparr> tr_zerodhaStatus := not_logged_in \<rparr>, callsp @ [getZerodhaMargins])
             | Resolved m \<Rightarrow>
                 let stm = stp \<lparr> tr_zerodhaStatus := (tr_zerodhaStatus stp) \<lparr> margins := m \<rparr> \<rparr>;
                     callsm = callsp @ [getZerodhaMargins];
                     ordersResponse = srv callsm getZerodhaOrders;
                     positionsResponse = srv (callsm @ [getZerodhaOrders]) getZerodhaPositions;
                     callso = callsm @ [getZerodhaOrders, getZerodhaPositions]
                 in
                 (case (ordersResponse, positionsResponse) of
                    (Resolved os, Resolved ps) \<Rightarrow>
                      (stm \<lparr> tr_orders := os, tr_positions := ps \<rparr>, callso)
                  | _ \<Rightarrow> (stm \<lparr> tr_zerodhaStatus := not_logged_in \<rparr>, callso))))"

definition tr_fetchData ::
  "server \<Rightarrow> trading_state \<times> api_call list \<Rightarrow> trading_state \<times> api_call list" where
  "tr_fetchData srv w =
     (case w of (st, calls) \<Rightarrow>
        case fetch_account srv (st \<lparr> tr_loading := True, tr_error := None \<rparr>, calls) of
          (st2, calls2) \<Rightarrow>
            let c = getSignal (tr_tradeForm st ''timeframe'') in
            (case srv calls2 c of
               Rejected \<Rightarrow>
                 (st2 \<lparr> tr_error := Some ''Failed to load trading data. Please try again later.'',
                        tr_loading := False \<rparr>, calls2 @ [c])
             | Resolved s \<Rightarrow>
                 let st3 = st2 \<lparr> tr_signal := s \<rparr> in
                 if truthy s \<and> truthy (prop_of s ''stop_loss'') \<and> truthy (prop_of s ''take_profit'')
                 then (st3 \<lparr> tr_tradeForm :=
                               (tr_tradeForm st3)
                                 (''stopLoss'' := prop_of s ''stop_loss'',
                                  ''takeProfit'' := prop_of s ''take_profit''),
                             tr_loading := False \<rparr>, calls2 @ [c])
                 else (st3 \<lparr> tr_loading := False \<rparr>, calls2 @ [c])))"

definition handleZerodhaLogin ::
  "server \<Rightarrow> trading_state \<times> api_call list \<Rightarrow> trading_state \<times> api_call list" where
  "handleZerodhaLogin srv w =
     (case w of (st, calls) \<Rightarrow>
        let failed = st \<lparr> tr_error :=
                           Some ''Failed to initiate Zerodha login. Please try again later.'' \<rparr>
        in
        case srv calls getZerodhaLoginUrl of
          Rejected \<Rightarrow> (failed, calls @ [getZerodhaLoginUrl])
        | Resolved d \<Rightarrow>
            (case getProp d ''login_url'' of
               Inl e \<Rightarrow> (failed, calls @ [getZerodhaLoginUrl])
             | Inr u \<Rightarrow> (st \<lparr> tr_href := Some u \<rparr>, calls @ [getZerodhaLoginUrl])))"

definition handleFormChange ::
  "string \<Rightarrow> string \<Rightarrow> string \<Rightarrow> bool \<Rightarrow> trading_state \<Rightarrow> trading_state" where
  "handleFormChange name val type checked st =
     st \<lparr> tr_tradeForm :=
            (tr_tradeForm st) (name := (if type = ''checkbox'' then JBool checked else JStr val)) \<rparr>"

definition handleTimeframeChange ::
  "server \<Rightarrow> jsval \<Rightarrow> trading_state \<times> api_call list \<Rightarrow> trading_state \<times> api_call list" where
  "handleTimeframeChange srv timeframe w =
     (case w of (st, calls) \<Rightarrow>
        let st1 = st \<lparr> tr_tradeForm := (tr_tradeForm st) (''timeframe'' := timeframe),
                       tr_loading := True \<rparr>;
            c = getSignal timeframe
        in
        case srv calls c of
          Rejected \<Rightarrow> (st1 \<lparr> tr_loading := False \<rparr>, calls @ [c])
        | Resolved s \<Rightarrow>
            let st2 = st1 \<lparr> tr_signal := s \<rparr> in
            if truthy (tr_tradeForm st ''useSignalLevels'') \<and> truthy s
            then (st2 \<lparr> tr_tradeForm :=
                          (tr_tradeForm st2)
                            (''stopLoss'' := prop_of s ''stop_loss'',
                             ''takeProfit'' := prop_of s ''take_profit''),
                        tr_loading := False \<rparr>, calls @ [c])
            else (st2 \<lparr> tr_loading := False \<rparr>, calls @ [c]))"

text \<open>
  \<open>tradeForm.useSignalLevels && signal.stop_loss ? signal.stop_loss : tradeForm.stopLoss\<close>,
  for either level: the signal's level when the box is ticked and the level is truthy,
  the form's level otherwise. Reading the level of a \<open>null\<close> signal throws.
\<close>

definition trade_level :: "jsval \<Rightarrow> jsval \<Rightarrow> string \<Rightarrow> jsval \<Rightarrow> js_error + jsval" where
  "trade_level useSignalLevels signal field manual =
     (if truthy useSignalLevels
      then bindE (getProp signal field) (\<lambda>level. Inr (if truthy level then level else manual))
      else Inr manual)"

definition build_tradeData :: "js_lib \<Rightarrow> trading_state \<Rightarrow> jsval \<Rightarrow> js_error + jsval" where
  "build_tradeData lib st action =
     (let form = tr_tradeForm st in
      bindE (trade_level (form ''useSignalLevels'') (tr_signal st) ''stop_loss'' (form ''stopLoss''))
        (\<lambda>sl.
      bindE (trade_level (form ''useSignalLevels'') (tr_signal st) ''take_profit'' (form ''takeProfit''))
        (\<lambda>tp.
      Inr (JObj [(''action'', action),
                 (''timeframe'', form ''timeframe''),
                 (''quantity'', parseInt lib (form ''quantity'')),
                 (''order_type'', form ''orderType''),
                 (''stop_loss'', sl),
                 (''take_profit'', tp)]))))"

definition trade_failed :: "trading_state \<Rightarrow> trading_state" where
  "trade_failed st =
     st \<lparr> tr_error := Some ''Failed to execute trade. Please check your inputs and try again.'',
          tr_submitting := False \<rparr>"

definition handleExecuteTrade ::
  "js_lib \<Rightarrow> server \<Rightarrow> jsval \<Rightarrow> trading_state \<times> api_call list \<Rightarrow> trading_state \<times> api_call list" where
  "handleExecuteTrade lib srv action w =
     (case w of (st, calls) \<Rightarrow>
        let st1 = st \<lparr> tr_submitting := True, tr_error := None, tr_success := None \<rparr> in
        if \<not> isLoggedIn (tr_zerodhaStatus st) then
          (st1 \<lparr> tr_error := Some ''You must log in to Zerodha to execute trades.'',
                 tr_submitting := False \<rparr>, calls)
        else
          (case build_tradeData lib st action of
             Inl e \<Rightarrow> (trade_failed st1, calls)
           | Inr tradeData \<Rightarrow>
               let c = placeTradeFromSignal tradeData in
               (case srv calls c of
                  Rejected \<Rightarrow> (trade_failed st1, calls @ [c])
                | Resolved d \<Rightarrow>
                    (case getProp d ''order_id'' of
                       Inl e \<Rightarrow> (trade_failed st1, calls @ [c])
                     | Inr order_id \<Rightarrow>
                         let st2 = st1 \<lparr> tr_success :=
                               Some (''Trade executed successfully! Order ID: '' @ template lib order_id) \<rparr>
                         in
                         (case srv (calls @ [c]) getZerodhaOrders of
                            Rejected \<Rightarrow> (trade_failed st2, calls @ [c, getZerodhaOrders])
                          | Resolved os \<Rightarrow>
                              (st2 \<lparr> tr_orders := os, tr_submitting := False \<rparr>,
                               calls @ [c, getZerodhaOrders]))))))"

text \<open>
  The page's events, each with the handler and the arguments the JSX binds to it. The
  order types are the four \<open>option\<close> values of the form. A handler runs to its end
  before the next event, and every control may fire in every state.
\<close>

datatype order_type_choice = Market | Limit | StopLoss | StopLossMarket

fun order_type_value :: "order_type_choice \<Rightarrow> string" where
  "order_type_value Market = ''MARKET''"
| "order_type_value Limit = ''LIMIT''"
| "order_type_value StopLoss = ''SL''"
| "order_type_value StopLossMarket = ''SL-M''"

datatype trading_event =
    Mount
  | ClickRefresh
  | ClickLogin
  | SelectTimeframe timeframe_choice
  | ChangeQuantity string
  | SelectOrderType order_type_choice
  | CheckUseSignalLevels bool
  | ChangeStopLoss string
  | ChangeTakeProfit string
  | ClickBuy
  | ClickSell

fun trading_step ::
  "js_lib \<Rightarrow> server \<Rightarrow> trading_state \<times> api_call list \<Rightarrow> trading_event
     \<Rightarrow> trading_state \<times> api_call list" where
  "trading_step lib srv w Mount = tr_fetchData srv w"
| "trading_step lib srv w ClickRefresh = tr_fetchData srv w"
| "trading_step lib srv w ClickLogin = handleZerodhaLogin srv w"
| "trading_step lib srv w (SelectTimeframe ch) =
     handleTimeframeChange srv (JStr (choice_value ch)) w"
| "trading_step lib srv w (ChangeQuantity v) =
     (handleFormChange ''quantity'' v ''number'' False (fst w), snd w)"
| "trading_step lib srv w (SelectOrderType ch) =
     (handleFormChange ''orderType'' (order_type_value ch) ''select-one'' False (fst w), snd w)"
| "trading_step lib srv w (CheckUseSignalLevels b) =
     (handleFormChange ''useSignalLevels'' ''on'' ''checkbox'' b (fst w), snd w)"
| "trading_step lib srv w (ChangeStopLoss v) =
     (handleFormChange ''stopLoss'' v ''number'' False (fst w), snd w)"
| "trading_step lib srv w (ChangeTakeProfit v) =
     (handleFormChange ''takeProfit'' v ''number'' False (fst w), snd w)"
| "trading_step lib srv w ClickBuy = handleExecuteTrade lib srv (JStr ''BUY'') w"
| "trading_step lib srv w ClickSell = handleExecuteTrade lib srv (JStr ''SELL'') w"

section \<open>Dashboard (pages/Dashboard.js)\<close>

text \<open>
  The page's state; of \<open>lastUpdate\<close> only whether it is set is kept, not the date.
\<close>

record dashboard_state =
  dash_loading :: bool
  dash_error :: "string option"
  dash_priceData :: jsval
  dash_predictions :: jsval
  dash_signals :: jsval
  dash_selectedTimeframe :: jsval
  dash_lastUpdate :: bool
  dash_showPredictions :: bool

definition dash_init :: dashboard_state where
  "dash_init =
     \<lparr> dash_loading = True, dash_error = None, dash_priceData = JArr [],
       dash_predictions = JArr [], dash_signals = JObj [], dash_selectedTimeframe = JStr ''1h'',
       dash_lastUpdate = False, dash_showPredictions = True \<rparr>"

text \<open>
  What is stored from the data \<open>d\<close> of a price or predictions response: \<open>d.data\<close> or
  \<open>d\<close> when it is an array and the response has the expected structure, \<open>[]\<close> otherwise.
\<close>

definition response_list :: "jsval \<Rightarrow> jsval" where
  "response_list d =
     (if truthy d \<and> (prop_of d ''status'' = JStr ''success'' \<or> truthy (prop_of d ''data''))
      then (if isArray (prop_of d ''data'') then prop_of d ''data''
            else if isArray d then d
            else JArr [])
      else JArr [])"

definition response_signal :: "jsval \<Rightarrow> jsval" where
  "response_signal d =
     (if truthy d
      then (if prop_of d ''status'' = JStr ''success'' \<and> truthy (prop_of d ''data'')
            then prop_of d ''data''
            else if typeof d = ''object'' \<and> \<not> truthy (prop_of d ''error'') then d
            else JObj [])
      else JObj [])"

definition dash_failed :: "dashboard_state \<Rightarrow> dashboard_state" where
  "dash_failed st =
     st \<lparr> dash_error := Some ''Failed to load dashboard data. Please try again later.'',
          dash_priceData := JArr [], dash_predictions := JArr [], dash_signals := JObj [],
          dash_loading := False \<rparr>"

definition fetchDashboardData ::
  "server \<Rightarrow> jsval \<Rightarrow> dashboard_state \<times> api_call list \<Rightarrow> dashboard_state \<times> api_call list" where
  "fetchDashboardData srv timeframe w =
     (case w of (st, calls) \<Rightarrow>
        let st1 = st \<lparr> dash_loading := True, dash_error := None \<rparr>;
            c1 = getPriceData timeframe (JNum 100);
            c2 = getPredictions timeframe;
            c3 = getSignal timeframe
        in
        case srv calls c1 of
          Rejected \<Rightarrow> (dash_failed st1, calls @ [c1])
        | Resolved d1 \<Rightarrow>
            let st2 = st1 \<lparr> dash_priceData := response_list d1 \<rparr> in
            (case srv (calls @ [c1]) c2 of
               Rejected \<Rightarrow> (dash_failed st2, calls @ [c1, c2])
             | Resolved d2 \<Rightarrow>
                 let st3 = st2 \<lparr> dash_predictions := response_list d2 \<rparr> in
                 (case srv (calls @ [c1, c2]) c3 of
                    Rejected \<Rightarrow> (dash_failed st3, calls @ [c1, c2, c3])
                  | Resolved d3 \<Rightarrow>
                      (st3 \<lparr> dash_signals := response_signal d3, dash_lastUpdate := True,
                             dash_loading := False \<rparr>, calls @ [c1, c2, c3]))))"

definition dash_handleRefresh ::
  "server \<Rightarrow> dashboard_state \<times> api_call list \<Rightarrow> dashboard_state \<times> api_call list" where
  "dash_handleRefresh srv w = fetchDashboardData srv (dash_selectedTimeframe (fst w)) w"

definition dash_handleUpdateData ::
  "server \<Rightarrow> dashboard_state \<times> api_call list \<Rightarrow> dashboard_state \<times> api_call list" where
  "dash_handleUpdateData srv w =
     (case w of (st, calls) \<Rightarrow>
        let st1 = st \<lparr> dash_loading := True \<rparr> in
        case srv calls updateData of
          Rejected \<Rightarrow>
            (st1 \<lparr> dash_error := Some ''Failed to update data. Please try again later.'',
                   dash_loading := False \<rparr>, calls @ [updateData])
        | Resolved d \<Rightarrow> dash_handleRefresh srv (st1, calls @ [updateData]))"

text \<open>
  A timeframe button sets \<open>selectedTimeframe\<close> and fetches for the new timeframe; when
  the value has changed, the effect on \<open>selectedTimeframe\<close> fetches once more. The two
  fetches are run one after the other here; in the browser their calls interleave,
  the calls themselves being the same.
\<close>

definition dash_handleTimeframeChange ::
  "server \<Rightarrow> jsval \<Rightarrow> dashboard_state \<times> api_call list \<Rightarrow> dashboard_state \<times> api_call list" where
  "dash_handleTimeframeChange srv timeframe w =
     (case w of (st, calls) \<Rightarrow>
        let w1 = fetchDashboardData srv timeframe
                   (st \<lparr> dash_selectedTimeframe := timeframe \<rparr>, calls)
        in if dash_selectedTimeframe st = timeframe then w1
           else fetchDashboardData srv timeframe w1)"

datatype dashboard_event =
    DashMount
  | DashTimeframe timeframe_choice
  | DashRefresh
  | DashUpdateData
  | DashTogglePredictions

fun dash_step ::
  "server \<Rightarrow> dashboard_state \<times> api_call list \<Rightarrow> dashboard_event
     \<Rightarrow> dashboard_state \<times> api_call list" where
  "dash_step srv w DashMount = fetchDashboardData srv (dash_selectedTimeframe (fst w)) w"
| "dash_step srv w (DashTimeframe ch) = dash_handleTimeframeChange srv (JStr (choice_value ch)) w"
| "dash_step srv w DashRefresh = dash_handleRefresh srv w"
| "dash_step srv w DashUpdateData = dash_handleUpdateData srv w"
| "dash_step srv w DashTogglePredictions =
     ((fst w) \<lparr> dash_showPredictions := \<not> dash_showPredictions (fst w) \<rparr>, snd w)"

section \<open>PriceData (pages/PriceData.js)\<close>

record pricedata_state =
  pd_loading :: bool
  pd_error :: "string option"
  pd_priceData :: jsval
  pd_selectedTimeframe :: jsval
  pd_limit :: jsval

definition pd_init :: pricedata_state where
  "pd_init =
     \<lparr> pd_loading = True, pd_error = None, pd_priceData = JArr [],
       pd_selectedTimeframe = JStr ''1h'', pd_limit = JNum 100 \<rparr>"

definition fetchPriceData ::
  "server \<Rightarrow> pricedata_state \<times> api_call list \<Rightarrow> pricedata_state \<times> api_call list" where
  "fetchPriceData srv w =
     (case w of (st, calls) \<Rightarrow>
        let st1 = st \<lparr> pd_loading := True, pd_error := None \<rparr>;
            c = getPriceData (pd_selectedTimeframe st) (pd_limit st)
        in
        case srv calls c of
          Rejected \<Rightarrow>
            (st1 \<lparr> pd_error := Some ''Failed to load price data. Please try again later.'',
                   pd_loading := False \<rparr>, calls @ [c])
        | Resolved d \<Rightarrow> (st1 \<lparr> pd_priceData := d, pd_loading := False \<rparr>, calls @ [c]))"

definition pd_handleUpdateData ::
  "server \<Rightarrow> pricedata_state \<times> api_call list \<Rightarrow> pricedata_state \<times> api_call list" where
  "pd_handleUpdateData srv w =
     (case w of (st, calls) \<Rightarrow>
        let st1 = st \<lparr> pd_loading := True \<rparr> in
        case srv calls updateData of
          Rejected \<Rightarrow>
            (st1 \<lparr> pd_error := Some ''Failed to update data. Please try again later.'',
                   pd_loading := False \<rparr>, calls @ [updateData])
        | Resolved d \<Rightarrow> fetchPriceData srv (st1, calls @ [updateData]))"

text \<open>The four limit buttons.\<close>

datatype limit_choice = Limit50 | Limit100 | Limit200 | Limit500

fun limit_value :: "limit_choice \<Rightarrow> real" where
  "limit_value Limit50 = 50"
| "limit_value Limit100 = 100"
| "limit_value Limit200 = 200"
| "limit_value Limit500 = 500"

datatype pricedata_event =
    PdMount
  | PdTimeframe timeframe_choice
  | PdLimit limit_choice
  | PdUpdateData

text \<open>
  A timeframe or limit button sets its state; the effect on \<open>[selectedTimeframe, limit]\<close>
  fetches when the value has changed.
\<close>

fun pd_step ::
  "server \<Rightarrow> pricedata_state \<times> api_call list \<Rightarrow> pricedata_event
     \<Rightarrow> pricedata_state \<times> api_call list" where
  "pd_step srv w PdMount = fetchPriceData srv w"
| "pd_step srv w (PdTimeframe ch) =
     (if pd_selectedTimeframe (fst w) = JStr (choice_value ch) then w
      else fetchPriceData srv ((fst w) \<lparr> pd_selectedTimeframe := JStr (choice_value ch) \<rparr>, snd w))"
| "pd_step srv w (PdLimit ch) =
     (if pd_limit (fst w) = JNum (limit_value ch) then w
      else fetchPriceData srv ((fst w) \<lparr> pd_limit := JNum (limit_value ch) \<rparr>, snd w))"
| "pd_step srv w PdUpdateData = pd_handleUpdateData srv w"

section \<open>Signals (pages/Signals.js)\<close>

record signals_state =
  sig_loading :: bool
  sig_error :: "string option"
  sig_signals :: jsval
  sig_selectedTimeframe :: jsval
  sig_lastUpdate :: bool

definition sig_init :: signals_state where
  "sig_init =
     \<lparr> sig_loading = True, sig_error = None, sig_signals = JObj [],
       sig_selectedTimeframe = JStr ''1h'', sig_lastUpdate = False \<rparr>"

definition timeframes :: "string list" where
  "timeframes = [''1h'', ''4h'', ''1d'', ''1w'']"

definition fetchSignals ::
  "server \<Rightarrow> signals_state \<times> api_call list \<Rightarrow> signals_state \<times> api_call list" where
  "fetchSignals srv w =
     (case w of (st, calls) \<Rightarrow>
        let st1 = st \<lparr> sig_loading := True, sig_error := None \<rparr> in
        case srv calls getAllSignals of
          Rejected \<Rightarrow>
            (st1 \<lparr> sig_error := Some ''Failed to load signals. Please try again later.'',
                   sig_loading := False \<rparr>, calls @ [getAllSignals])
        | Resolved d \<Rightarrow>
            (st1 \<lparr> sig_signals := d, sig_lastUpdate := True, sig_loading := False \<rparr>,
             calls @ [getAllSignals]))"

definition sig_handleUpdateData ::
  "server \<Rightarrow> signals_state \<times> api_call list \<Rightarrow> signals_state \<times> api_call list" where
  "sig_handleUpdateData srv w =
     (case w of (st, calls) \<Rightarrow>
        let st1 = st \<lparr> sig_loading := True \<rparr> in
        case srv calls updateData of
          Rejected \<Rightarrow>
            (st1 \<lparr> sig_error := Some ''Failed to update data. Please try again later.'',
                   sig_loading := False \<rparr>, calls @ [updateData])
        | Resolved d \<Rightarrow> fetchSignals srv (st1, calls @ [updateData]))"

datatype signals_event = SigMount | SigTimeframe timeframe_choice | SigRefresh | SigUpdateData

fun sig_step ::
  "server \<Rightarrow> signals_state \<times> api_call list \<Rightarrow> signals_event
     \<Rightarrow> signals_state \<times> api_call list" where
  "sig_step srv w SigMount = fetchSignals srv w"
| "sig_step srv w (SigTimeframe ch) =
     ((fst w) \<lparr> sig_selectedTimeframe := JStr (choice_value ch) \<rparr>, snd w)"
| "sig_step srv w SigRefresh = fetchSignals srv w"
| "sig_step srv w SigUpdateData = sig_handleUpdateData srv w"

section \<open>The core's contract, where the backend is not part of the sources\<close>

text \<open>The votes of the voters and the action of a signal, as the spec names them.\<close>

datatype vote = VoteBuy | VoteSell | VoteNeutral

datatype signal_action = ActionBuy | ActionSell | ActionHold

text \<open>
  Modelled from the spec: the non-neutral votes, over which SignalFusionEngine takes
  the majority. The engine's code (the backend) is missing.
\<close>

definition non_neutral :: "vote list \<Rightarrow> vote list" where
  "non_neutral votes = filter (\<lambda>v. v \<noteq> VoteNeutral) votes"

text \<open>
  Modelled from the spec: the fusion rule of SignalFusionEngine, whose code (the
  backend) is missing. Each voter casts BUY, SELL or NEUTRAL; the action is the
  majority among the non-neutral votes, and a tie resolves to HOLD.
\<close>

definition fuse :: "vote list \<Rightarrow> signal_action" where
  "fuse votes =
     (let cast = non_neutral votes;
          buys = length (filter (\<lambda>v. v = VoteBuy) cast);
          sells = length (filter (\<lambda>v. v = VoteSell) cast)
      in if 2 * buys > length cast then ActionBuy
         else if 2 * sells > length cast then ActionSell
         else ActionHold)"

text \<open>
  Modelled from the spec: the inputs of SignalFusionEngine, the latest IndicatorSet
  and the nearest-horizon ForecastPoint of the data model (the latest price is a
  number). The engine's code (the backend) is missing.
\<close>

record indicator_set =
  ind_timestamp :: nat
  ind_sma_20 :: real
  ind_ema_12 :: real
  ind_ema_26 :: real
  ind_rsi_14 :: real
  ind_macd :: real
  ind_macd_signal :: real
  ind_macd_histogram :: real
  ind_bb_upper :: real
  ind_bb_middle :: real
  ind_bb_lower :: real

record forecast_point =
  fp_timestamp :: nat
  fp_predicted_close :: real
  fp_model_version :: string

text \<open>
  Modelled from the spec: the four voters and their fixed thresholds. RSI below 30
  votes BUY and above 70 SELL; the MACD histogram votes BUY when it has crossed to
  positive and SELL when it has crossed to negative; the price votes BUY when it has
  crossed below the lower Bollinger band and SELL above the upper; the forecast
  votes by its direction against the current price. The snapshot is the engine's only
  indicator input, so a crossing is read off the latest bar. The voters' code (the
  backend) is missing.
\<close>

definition rsi_vote :: "indicator_set \<Rightarrow> vote" where
  "rsi_vote ind =
     (if ind_rsi_14 ind < 30 then VoteBuy else if ind_rsi_14 ind > 70 then VoteSell
      else VoteNeutral)"

definition macd_vote :: "indicator_set \<Rightarrow> vote" where
  "macd_vote ind =
     (if ind_macd_histogram ind > 0 then VoteBuy
      else if ind_macd_histogram ind < 0 then VoteSell
      else VoteNeutral)"

definition bollinger_vote :: "real \<Rightarrow> indicator_set \<Rightarrow> vote" where
  "bollinger_vote price ind =
     (if price < ind_bb_lower ind then VoteBuy
      else if price > ind_bb_upper ind then VoteSell
      else VoteNeutral)"

definition forecast_vote :: "real \<Rightarrow> forecast_point \<Rightarrow> vote" where
  "forecast_vote price fc =
     (if fp_predicted_close fc > price then VoteBuy
      else if fp_predicted_close fc < price then VoteSell
      else VoteNeutral)"

definition cast_votes :: "real \<Rightarrow> indicator_set \<Rightarrow> forecast_point \<Rightarrow> (string \<times> vote) list" where
  "cast_votes price ind fc =
     [(''rsi'', rsi_vote ind), (''macd'', macd_vote ind),
      (''bollinger'', bollinger_vote price ind), (''forecast'', forecast_vote price fc)]"

text \<open>
  Modelled from the spec: the Signal of the data model, and the engine's two
  configured parameters, the super-majority fraction and the risk fraction. The
  engine's code (the backend) is missing.
\<close>

datatype signal_strength = WEAK | STRONG

record fused_signal =
  fs_timeframe :: string
  fs_timestamp :: nat
  fs_action :: signal_action
  fs_strength :: signal_strength
  fs_current_price :: real
  fs_stop_loss :: "real option"
  fs_take_profit :: "real option"
  fs_component_votes :: "(string \<times> vote) list"
  fs_indicator_snapshot :: indicator_set

record fusion_config =
  cfg_supermajority :: real
  cfg_risk :: real

text \<open>
  Modelled from the spec: SignalFusionEngine, whose code (the backend) is missing.
  The action is the fusion of the four votes. The strength is STRONG when the action
  is not HOLD and at least the super-majority fraction of all voters voted for it. The
  stop loss and the take profit lie the risk fraction from the current price, in the
  trade direction, and are absent for HOLD.
\<close>

definition SignalFusionEngine ::
  "fusion_config \<Rightarrow> string \<Rightarrow> real \<Rightarrow> indicator_set \<Rightarrow> forecast_point \<Rightarrow> fused_signal" where
  "SignalFusionEngine cfg timeframe price ind fc =
     (let ballots = cast_votes price ind fc;
          votes = map snd ballots;
          action = fuse votes;
          agreeing =
            (case action of
               ActionBuy \<Rightarrow> length (filter (\<lambda>v. v = VoteBuy) votes)
             | ActionSell \<Rightarrow> length (filter (\<lambda>v. v = VoteSell) votes)
             | ActionHold \<Rightarrow> 0)
      in \<lparr> fs_timeframe = timeframe,
           fs_timestamp = ind_timestamp ind,
           fs_action = action,
           fs_strength =
             (if action \<noteq> ActionHold \<and> cfg_supermajority cfg * real (length votes) \<le> real agreeing
              then STRONG else WEAK),
           fs_current_price = price,
           fs_stop_loss =
             (case action of
                ActionBuy \<Rightarrow> Some (price * (1 - cfg_risk cfg))
              | ActionSell \<Rightarrow> Some (price * (1 + cfg_risk cfg))
              | ActionHold \<Rightarrow> None),
           fs_take_profit =
             (case action of
                ActionBuy \<Rightarrow> Some (price * (1 + cfg_risk cfg))
              | ActionSell \<Rightarrow> Some (price * (1 - cfg_risk cfg))
              | ActionHold \<Rightarrow> None),
           fs_component_votes = ballots,
           fs_indicator_snapshot = ind \<rparr>)"

datatype core_error = InvalidTimeframe

text \<open>
  Modelled from the spec: the timeframes the core recognizes, \<open>1h\<close>, \<open>4h\<close>, \<open>1d\<close> and
  \<open>1w\<close>. The core's code (the backend) is missing.
\<close>

definition recognized_timeframes :: "string list" where
  "recognized_timeframes = [''1h'', ''4h'', ''1d'', ''1w'']"

text \<open>
  Modelled from the spec: the check of a timeframe argument by the core, whose code
  (the backend) is missing. Any value that is not recognized fails with
  InvalidTimeframe.
\<close>

definition check_timeframe :: "string \<Rightarrow> core_error + string" where
  "check_timeframe tf = (if tf \<in> set recognized_timeframes then Inr tf else Inl InvalidTimeframe)"

text \<open>
  The timeframe a call of the API client carries: the argument of the four data
  endpoints (with its default), and the \<open>timeframe\<close> property of a signal trade.
\<close>

fun call_timeframe :: "api_call \<Rightarrow> jsval option" where
  "call_timeframe (getPriceData timeframe limit) = Some (default_arg timeframe (JStr ''1h''))"
| "call_timeframe (getIndicators timeframe limit) = Some (default_arg timeframe (JStr ''1h''))"
| "call_timeframe (getPredictions timeframe) = Some (default_arg timeframe (JStr ''1h''))"
| "call_timeframe (getSignal timeframe) = Some (default_arg timeframe (JStr ''1h''))"
| "call_timeframe (placeTradeFromSignal tradeData) = Some (prop_of tradeData ''timeframe'')"
| "call_timeframe c = None"

text \<open>A call is in order when it carries no timeframe, or a string the core accepts.\<close>

definition timeframe_ok :: "api_call \<Rightarrow> bool" where
  "timeframe_ok c =
     (case call_timeframe c of
        None \<Rightarrow> True
      | Some (JStr tf) \<Rightarrow> check_timeframe tf = Inr tf
      | Some v \<Rightarrow> False)"

text \<open>
  Modelled from the spec: the Order of the data model and the session states of
  BrokerGateway. The gateway's code (the backend) is missing.
\<close>

datatype order_status = PENDING | COMPLETE | REJECTED | CANCELLED


datatype session_state = UNAUTHENTICATED | AWAITING_CALLBACK | AUTHENTICATED










section \<open>Runs of the pages, and example backends\<close>

definition trading_run ::
  "js_lib \<Rightarrow> server \<Rightarrow> trading_event list \<Rightarrow> trading_state \<times> api_call list" where
  "trading_run lib srv evs = foldl (trading_step lib srv) (trading_init, []) evs"

definition pred_run ::
  "js_lib \<Rightarrow> server \<Rightarrow> (nat \<Rightarrow> real) \<Rightarrow> predictions_event list
     \<Rightarrow> predictions_state \<times> api_call list \<times> nat" where
  "pred_run lib srv rnd evs = foldl (pred_step lib srv rnd) (pred_init, [], 0) evs"

definition dash_run :: "server \<Rightarrow> dashboard_event list \<Rightarrow> dashboard_state \<times> api_call list" where
  "dash_run srv evs = foldl (dash_step srv) (dash_init, []) evs"

definition pd_run :: "server \<Rightarrow> pricedata_event list \<Rightarrow> pricedata_state \<times> api_call list" where
  "pd_run srv evs = foldl (pd_step srv) (pd_init, []) evs"

definition sig_run :: "server \<Rightarrow> signals_event list \<Rightarrow> signals_state \<times> api_call list" where
  "sig_run srv evs = foldl (sig_step srv) (sig_init, []) evs"

text \<open>
  A backend with a logged-in broker session that accepts every trade, and answers
  every request for a signal with the given one.
\<close>

definition broker_with_signal :: "jsval \<Rightarrow> server" where
  "broker_with_signal sig =
     (\<lambda>calls c. case c of
        getSignal tf \<Rightarrow> Resolved sig
      | getZerodhaProfile \<Rightarrow> Resolved (JObj [(''user_name'', JStr ''Asha'')])
      | getZerodhaMargins \<Rightarrow> Resolved (JObj [(''available'', JNum 100000)])
      | placeTradeFromSignal d \<Rightarrow> Resolved (JObj [(''order_id'', JStr ''A1'')])
      | _ \<Rightarrow> Resolved (JArr []))"

text \<open>A backend that answers every request for predictions with the same two points.\<close>

definition forecast_server :: server where
  "forecast_server =
     (\<lambda>calls c. case c of
        getPredictions tf \<Rightarrow>
          Resolved (JArr [JObj [(''timestamp'', JStr ''t3''), (''predicted_price'', JNum 1910)],
                          JObj [(''timestamp'', JStr ''t4''), (''predicted_price'', JNum 1912)]])
      | _ \<Rightarrow>
          Resolved (JArr [JObj [(''timestamp'', JStr ''t1''), (''close'', JNum 1900)],
                          JObj [(''timestamp'', JStr ''t2''), (''close'', JNum 1905)]]))"

section \<open>Vocabulary of the statements\<close>

text \<open>
  A signal with the fields of the data model: the timeframe a string, the price levels
  numbers, \<open>signals\<close> an object of strings and \<open>indicators\<close> an object of numbers, each
  possibly absent.
\<close>

definition number_or_absent :: "jsval \<Rightarrow> bool" where
  "number_or_absent v =
     (case v of JUndefined \<Rightarrow> True | JNull \<Rightarrow> True | JNum n \<Rightarrow> True | _ \<Rightarrow> False)"

definition string_or_absent :: "jsval \<Rightarrow> bool" where
  "string_or_absent v =
     (case v of JUndefined \<Rightarrow> True | JNull \<Rightarrow> True | JStr s \<Rightarrow> True | _ \<Rightarrow> False)"

definition plain_signal :: "jsval \<Rightarrow> bool" where
  "plain_signal signal \<longleftrightarrow>
     string_or_absent (prop_of signal ''timeframe'') \<and>
     number_or_absent (prop_of signal ''current_price'') \<and>
     number_or_absent (prop_of signal ''stop_loss'') \<and>
     number_or_absent (prop_of signal ''take_profit'') \<and>
     (case prop_of signal ''signals'' of
        JUndefined \<Rightarrow> True | JNull \<Rightarrow> True
      | JObj kvs \<Rightarrow> list_all (\<lambda>kv. string_or_absent (snd kv)) kvs
      | _ \<Rightarrow> False) \<and>
     (case prop_of signal ''indicators'' of
        JUndefined \<Rightarrow> True | JNull \<Rightarrow> True
      | JObj kvs \<Rightarrow>
          number_or_absent (prop_of (JObj kvs) ''rsi_14'') \<and>
          number_or_absent (prop_of (JObj kvs) ''macd'') \<and>
          number_or_absent (prop_of (JObj kvs) ''macd_signal'') \<and>
          number_or_absent (prop_of (JObj kvs) ''macd_histogram'')
      | _ \<Rightarrow> False)"

text \<open>
  The invariant of each page with a timeframe selector: the selected timeframe is one
  of the four choices, and every call made so far is in order.
\<close>

definition trading_inv :: "trading_state \<times> api_call list \<Rightarrow> bool" where
  "trading_inv w \<longleftrightarrow>
     (\<exists>ch. tr_tradeForm (fst w) ''timeframe'' = JStr (choice_value ch)) \<and>
     list_all timeframe_ok (snd w)"

definition pred_inv :: "predictions_state \<times> api_call list \<times> nat \<Rightarrow> bool" where
  "pred_inv w \<longleftrightarrow>
     (\<exists>ch. pred_selectedTimeframe (fst w) = JStr (choice_value ch)) \<and>
     list_all timeframe_ok (fst (snd w))"

definition dash_inv :: "dashboard_state \<times> api_call list \<Rightarrow> bool" where
  "dash_inv w \<longleftrightarrow>
     (\<exists>ch. dash_selectedTimeframe (fst w) = JStr (choice_value ch)) \<and>
     list_all timeframe_ok (snd w)"

definition pd_inv :: "pricedata_state \<times> api_call list \<Rightarrow> bool" where
  "pd_inv w \<longleftrightarrow>
     (\<exists>ch. pd_selectedTimeframe (fst w) = JStr (choice_value ch)) \<and>
     list_all timeframe_ok (snd w)"

section \<open>Auxiliary facts\<close>

lemma bindE_Inr_iff: "bindE m f = Inr y \<longleftrightarrow> (\<exists>x. m = Inr x \<and> f x = Inr y)"
  by (cases m) (auto simp: bindE_def)

lemma bindE_Inr [simp]: "bindE (Inr x) f = f x"
  by (simp add: bindE_def)

lemma bindE_Inl [simp]: "bindE (Inl e) f = Inl e"
  by (simp add: bindE_def)

lemma getSignalClass_cases:
  "getSignalClass a =
     (if a = JStr ''BUY'' then ''buy-signal'' else if a = JStr ''SELL'' then ''sell-signal''
      else ''hold-signal'')"
  by (auto simp: getSignalClass_def)

lemma getSignalIndicator_cases:
  "getSignalIndicator a =
     (if a = JStr ''BUY'' then ''buy'' else if a = JStr ''SELL'' then ''sell'' else ''hold'')"
  by (auto simp: getSignalIndicator_def)

lemma SignalDisplay_card:
  assumes "SignalDisplay lib signal = Inr (SignalCard c)"
  shows "indicator_className c = ''signal-indicator '' @ getSignalIndicator (prop_of signal ''action'')"
    and "action_className c = getSignalClass (prop_of signal ''action'') @ '' '' @
           getStrengthClass (prop_of signal ''signal_strength'')"
    and "action_text c = js_or (prop_of signal ''action'') (JStr ''HOLD'')"
  using assms
  by (auto simp: SignalDisplay_def Let_def bindE_Inr_iff split: if_splits)

section \<open>SignalDisplay: the fallback and the action classification\<close>

lemma fallback_iff:
  "(SignalDisplay lib signal = Inr NoSignalData) \<longleftrightarrow> \<not> hasValidData signal"
  by (auto simp: SignalDisplay_def Let_def bindE_Inr_iff)

lemma hasValidData_iff:
  "hasValidData signal \<longleftrightarrow>
     \<not> (signal = JUndefined \<or> signal = JNull \<or> typeof signal \<noteq> ''object'' \<or>
        truthy (prop_of signal ''error'') \<or> object_keys signal = [])"
  by (cases signal) (auto simp: hasValidData_def)

lemma fixed_or_na_number:
  "number_or_absent v \<Longrightarrow> \<exists>t. fixed_or_na lib d v = Inr t"
  by (cases v) (auto simp: number_or_absent_def fixed_or_na_def)

lemma timeframe_string:
  "string_or_absent v \<Longrightarrow> \<exists>s. js_or v (JStr ''Unknown'') = JStr s"
  by (cases v) (auto simp: string_or_absent_def js_or_def)

lemma value_includes_string:
  "string_or_absent v \<Longrightarrow> \<exists>b. value_includes v s = Inr b"
  by (cases v) (auto simp: string_or_absent_def)

lemma breakdown_item_string:
  "string_or_absent (snd kv) \<Longrightarrow> \<exists>row. breakdown_item lib kv = Inr row"
proof -
  assume ok: "string_or_absent (snd kv)"
  obtain key val where kv: "kv = (key, val)" by (cases kv)
  from ok kv obtain b where b: "value_includes val ''BUY'' = Inr b"
    using value_includes_string [of val "''BUY''"] by auto
  from ok kv obtain b' where b': "value_includes val ''SELL'' = Inr b'"
    using value_includes_string [of val "''SELL''"] by auto
  show ?thesis
    by (cases b) (simp_all add: breakdown_item_def kv b b')
qed

lemma mapE_all_Inr:
  "list_all (\<lambda>x. \<exists>y. f x = Inr y) xs \<Longrightarrow> \<exists>ys. mapE f xs = Inr ys"
  by (induction xs) auto

lemma breakdown_rows_strings:
  assumes "list_all (\<lambda>kv. string_or_absent (snd kv)) kvs"
  shows "\<exists>rows. mapE (breakdown_item lib) kvs = Inr rows"
proof (rule mapE_all_Inr)
  from assms show "list_all (\<lambda>x. \<exists>y. breakdown_item lib x = Inr y) kvs"
    by (induction kvs) (auto dest: breakdown_item_string)
qed

lemma signal_breakdown_plain:
  assumes "case v of JUndefined \<Rightarrow> True | JNull \<Rightarrow> True
           | JObj kvs \<Rightarrow> list_all (\<lambda>kv. string_or_absent (snd kv)) kvs | _ \<Rightarrow> False"
  shows "\<exists>b. signal_breakdown lib v = Inr b"
proof (cases v)
  case (JObj kvs)
  with assms have "list_all (\<lambda>kv. string_or_absent (snd kv)) kvs" by simp
  then obtain rows where "mapE (breakdown_item lib) kvs = Inr rows"
    using breakdown_rows_strings by blast
  with JObj show ?thesis by (simp add: signal_breakdown_def)
qed (use assms in \<open>auto simp: signal_breakdown_def\<close>)

lemma key_indicator_cells_plain:
  assumes "case v of JUndefined \<Rightarrow> True | JNull \<Rightarrow> True
           | JObj kvs \<Rightarrow>
               number_or_absent (prop_of (JObj kvs) ''rsi_14'') \<and>
               number_or_absent (prop_of (JObj kvs) ''macd'') \<and>
               number_or_absent (prop_of (JObj kvs) ''macd_signal'') \<and>
               number_or_absent (prop_of (JObj kvs) ''macd_histogram'')
           | _ \<Rightarrow> False"
  shows "\<exists>cells. key_indicator_cells lib v = Inr cells"
proof (cases v)
  case (JObj kvs)
  with assms have ok:
    "number_or_absent (prop_of (JObj kvs) ''rsi_14'')"
    "number_or_absent (prop_of (JObj kvs) ''macd'')"
    "number_or_absent (prop_of (JObj kvs) ''macd_signal'')"
    "number_or_absent (prop_of (JObj kvs) ''macd_histogram'')"
    by simp_all
  obtain a where a: "fixed_or_na lib 2 (prop_of (JObj kvs) ''rsi_14'') = Inr a"
    using fixed_or_na_number [OF ok(1)] by blast
  obtain b where b: "fixed_or_na lib 4 (prop_of (JObj kvs) ''macd'') = Inr b"
    using fixed_or_na_number [OF ok(2)] by blast
  obtain c where c: "fixed_or_na lib 4 (prop_of (JObj kvs) ''macd_signal'') = Inr c"
    using fixed_or_na_number [OF ok(3)] by blast
  obtain d where d: "fixed_or_na lib 4 (prop_of (JObj kvs) ''macd_histogram'') = Inr d"
    using fixed_or_na_number [OF ok(4)] by blast
  note a b c d
  with JObj show ?thesis by (simp add: key_indicator_cells_def)
qed (use assms in \<open>auto simp: key_indicator_cells_def\<close>)

lemma plain_signal_card:
  assumes valid: "hasValidData signal" and plain: "plain_signal signal"
  shows "\<exists>c. SignalDisplay lib signal = Inr (SignalCard c)"
proof -
  from plain obtain s where s: "js_or (prop_of signal ''timeframe'') (JStr ''Unknown'') = JStr s"
    using timeframe_string unfolding plain_signal_def by blast
  from plain obtain p where p: "fixed_or_na lib 2 (prop_of signal ''current_price'') = Inr p"
    using fixed_or_na_number unfolding plain_signal_def by blast
  from plain obtain sl where sl: "fixed_or_na lib 2 (prop_of signal ''stop_loss'') = Inr sl"
    using fixed_or_na_number unfolding plain_signal_def by blast
  from plain obtain tp where tp: "fixed_or_na lib 2 (prop_of signal ''take_profit'') = Inr tp"
    using fixed_or_na_number unfolding plain_signal_def by blast
  from plain obtain b where b: "signal_breakdown lib (prop_of signal ''signals'') = Inr b"
    using signal_breakdown_plain unfolding plain_signal_def by blast
  from plain obtain cells where cells: "key_indicator_cells lib (prop_of signal ''indicators'') = Inr cells"
    using key_indicator_cells_plain unfolding plain_signal_def by blast
  show ?thesis
    by (simp add: SignalDisplay_def Let_def valid s p sl tp b cells)
qed

lemmas display_defs =
  SignalDisplay_def hasValidData_def fixed_or_na_def signal_breakdown_def
  key_indicator_cells_def ascii_lib_def js_or_def ascii_upper_def Let_def breakdown_item_def
  toFixed_js_def
  getSignalClass_def getSignalIndicator_def getStrengthClass_def plain_signal_def
  string_or_absent_def number_or_absent_def template_def

text \<open>
  C8, as the code has it. SignalDisplay returns the no-data fallback exactly when the
  signal is \<open>undefined\<close> or \<open>null\<close>, is not an object, has a truthy \<open>error\<close> property, or
  has no keys. Every other signal takes the card branch, and a signal with the fields
  of the data model is rendered as the signal card.
\<close>

theorem signal_fallback_exactly_when:
  "(SignalDisplay lib signal = Inr NoSignalData \<longleftrightarrow>
      (signal = JUndefined \<or> signal = JNull \<or> typeof signal \<noteq> ''object'' \<or>
       truthy (prop_of signal ''error'') \<or> object_keys signal = []))
   \<and> (hasValidData signal \<and> plain_signal signal \<longrightarrow>
        (\<exists>c. SignalDisplay lib signal = Inr (SignalCard c)))"
  using fallback_iff [of lib signal] hasValidData_iff [of signal] plain_signal_card [of signal lib]
  by blast

theorem signal_fallback_exactly_when_witness:
  "hasValidData (JObj [(''action'', JStr ''SELL''), (''stop_loss'', JNum 1900)])
   \<and> plain_signal (JObj [(''action'', JStr ''SELL''), (''stop_loss'', JNum 1900)])
   \<and> SignalDisplay ascii_lib (JObj [(''action'', JStr ''SELL''), (''stop_loss'', JNum 1900)])
         \<noteq> Inr NoSignalData
   \<and> (\<exists>c. SignalDisplay ascii_lib (JObj [(''action'', JStr ''SELL''), (''stop_loss'', JNum 1900)])
             = Inr (SignalCard c))"
proof -
  have v: "hasValidData (JObj [(''action'', JStr ''SELL''), (''stop_loss'', JNum 1900)])"
    by (simp add: hasValidData_def)
  have p: "plain_signal (JObj [(''action'', JStr ''SELL''), (''stop_loss'', JNum 1900)])"
    by (simp add: plain_signal_def string_or_absent_def number_or_absent_def)
  from v p
    signal_fallback_exactly_when
      [of ascii_lib "JObj [(''action'', JStr ''SELL''), (''stop_loss'', JNum 1900)]"]
  show ?thesis by simp
qed

text \<open>
  C8 as stated fails twice. A signal that carries an \<open>error\<close> field holding \<open>null\<close> is
  rendered as the signal card, not as the fallback; and a signal outside the four
  fallback cases whose \<open>timeframe\<close> is the number 5 is not rendered at all:
  \<open>timeframe.toUpperCase()\<close> throws.
\<close>

theorem signal_fallback_counterexample:
  "''error'' \<in> set (object_keys (JObj [(''error'', JNull), (''action'', JStr ''BUY'')]))
   \<and> SignalDisplay ascii_lib (JObj [(''error'', JNull), (''action'', JStr ''BUY'')]) =
       Inr (SignalCard
         \<lparr> title_timeframe = ''UNKNOWN'',
           title_timestamp = ''No timestamp available'',
           indicator_className = ''signal-indicator buy'',
           action_className = ''buy-signal '',
           action_text = JStr ''BUY'',
           strength_text = [],
           current_price_text = JStr ''N/A'',
           stop_loss_text = JStr ''N/A'',
           take_profit_text = JStr ''N/A'',
           breakdown_list = BreakdownValue JUndefined,
           no_breakdown = True,
           key_indicators = None \<rparr>)
   \<and> SignalDisplay ascii_lib (JObj [(''timeframe'', JNum 5)]) = Inl TypeError"
  by (simp add: display_defs)

text \<open>
  C9, as the code has it. The classification is a total function of the action: the
  indicator and the style are those of BUY exactly when \<open>signal.action\<close> is \<open>'BUY'\<close>,
  those of SELL exactly when it is \<open>'SELL'\<close>, and those of HOLD for every other action,
  a missing one included. It is shown on the signal card only: every signal that
  passes the validity check and has the fields of the data model is rendered as a
  card, and every card that is rendered carries the classification of the signal's
  action and displays a missing (or otherwise falsy) action as \<open>HOLD\<close>, any other action
  as itself.
\<close>

theorem signal_action_classification:
  "(hasValidData signal \<and> plain_signal signal \<longrightarrow>
      (\<exists>c. SignalDisplay lib signal = Inr (SignalCard c)))
   \<and> (\<forall>c. SignalDisplay lib signal = Inr (SignalCard c) \<longrightarrow>
         indicator_className c =
           ''signal-indicator '' @
             (if prop_of signal ''action'' = JStr ''BUY'' then ''buy''
              else if prop_of signal ''action'' = JStr ''SELL'' then ''sell'' else ''hold'')
         \<and> action_className c =
             (if prop_of signal ''action'' = JStr ''BUY'' then ''buy-signal''
              else if prop_of signal ''action'' = JStr ''SELL'' then ''sell-signal''
              else ''hold-signal'') @ '' '' @ getStrengthClass (prop_of signal ''signal_strength'')
         \<and> action_text c =
             (if truthy (prop_of signal ''action'') then prop_of signal ''action''
              else JStr ''HOLD''))
   \<and> getSignalClass a =
         (if a = JStr ''BUY'' then ''buy-signal'' else if a = JStr ''SELL'' then ''sell-signal''
          else ''hold-signal'')
   \<and> getSignalIndicator a =
         (if a = JStr ''BUY'' then ''buy'' else if a = JStr ''SELL'' then ''sell'' else ''hold'')"
proof -
  have card: "hasValidData signal \<and> plain_signal signal \<longrightarrow>
      (\<exists>c. SignalDisplay lib signal = Inr (SignalCard c))"
    using plain_signal_card [of signal lib] by blast
  have shown: "indicator_className c =
           ''signal-indicator '' @
             (if prop_of signal ''action'' = JStr ''BUY'' then ''buy''
              else if prop_of signal ''action'' = JStr ''SELL'' then ''sell'' else ''hold'')
         \<and> action_className c =
             (if prop_of signal ''action'' = JStr ''BUY'' then ''buy-signal''
              else if prop_of signal ''action'' = JStr ''SELL'' then ''sell-signal''
              else ''hold-signal'') @ '' '' @ getStrengthClass (prop_of signal ''signal_strength'')
         \<and> action_text c =
             (if truthy (prop_of signal ''action'') then prop_of signal ''action''
              else JStr ''HOLD'')"
    if "SignalDisplay lib signal = Inr (SignalCard c)" for c
    using SignalDisplay_card [OF that]
    by (simp add: getSignalClass_cases getSignalIndicator_cases js_or_def)
  from card shown show ?thesis
    using getSignalClass_cases [of a] getSignalIndicator_cases [of a] by blast
qed

theorem signal_action_classification_witness:
  "hasValidData (JObj [(''action'', JStr ''BUY''), (''signal_strength'', JStr ''STRONG'')])
   \<and> plain_signal (JObj [(''action'', JStr ''BUY''), (''signal_strength'', JStr ''STRONG'')])
   \<and> SignalDisplay ascii_lib (JObj [(''action'', JStr ''BUY''), (''signal_strength'', JStr ''STRONG'')]) =
     Inr (SignalCard
       \<lparr> title_timeframe = ''UNKNOWN'',
         title_timestamp = ''No timestamp available'',
         indicator_className = ''signal-indicator buy'',
         action_className = ''buy-signal strong-signal'',
         action_text = JStr ''BUY'',
         strength_text = ''- STRONG'',
         current_price_text = JStr ''N/A'',
         stop_loss_text = JStr ''N/A'',
         take_profit_text = JStr ''N/A'',
         breakdown_list = BreakdownValue JUndefined,
         no_breakdown = True,
         key_indicators = None \<rparr>)
   \<and> (\<exists>c. SignalDisplay ascii_lib (JObj [(''action'', JStr ''SELL''), (''timeframe'', JStr ''4h'')])
             = Inr (SignalCard c)
          \<and> indicator_className c = ''signal-indicator sell''
          \<and> action_className c = ''sell-signal ''
          \<and> action_text c = JStr ''SELL'')
   \<and> (\<exists>c. SignalDisplay ascii_lib (JObj [(''current_price'', JNum 1900)]) = Inr (SignalCard c)
          \<and> indicator_className c = ''signal-indicator hold''
          \<and> action_className c = ''hold-signal ''
          \<and> action_text c = JStr ''HOLD'')"
proof -
  have buy: "hasValidData (JObj [(''action'', JStr ''BUY''), (''signal_strength'', JStr ''STRONG'')])"
    "plain_signal (JObj [(''action'', JStr ''BUY''), (''signal_strength'', JStr ''STRONG'')])"
    by (simp_all add: hasValidData_def plain_signal_def string_or_absent_def number_or_absent_def)
  have run: "SignalDisplay ascii_lib
      (JObj [(''action'', JStr ''BUY''), (''signal_strength'', JStr ''STRONG'')]) =
     Inr (SignalCard
       \<lparr> title_timeframe = ''UNKNOWN'',
         title_timestamp = ''No timestamp available'',
         indicator_className = ''signal-indicator buy'',
         action_className = ''buy-signal strong-signal'',
         action_text = JStr ''BUY'',
         strength_text = ''- STRONG'',
         current_price_text = JStr ''N/A'',
         stop_loss_text = JStr ''N/A'',
         take_profit_text = JStr ''N/A'',
         breakdown_list = BreakdownValue JUndefined,
         no_breakdown = True,
         key_indicators = None \<rparr>)"
    by (simp add: display_defs)
  have sell: "hasValidData (JObj [(''action'', JStr ''SELL''), (''timeframe'', JStr ''4h'')])"
    "plain_signal (JObj [(''action'', JStr ''SELL''), (''timeframe'', JStr ''4h'')])"
    by (simp_all add: hasValidData_def plain_signal_def string_or_absent_def number_or_absent_def)
  have hold: "hasValidData (JObj [(''current_price'', JNum 1900)])"
    "plain_signal (JObj [(''current_price'', JNum 1900)])"
    by (simp_all add: hasValidData_def plain_signal_def string_or_absent_def number_or_absent_def)
  from signal_action_classification
         [of "JObj [(''action'', JStr ''SELL''), (''timeframe'', JStr ''4h'')]" ascii_lib JNull] sell
  have s: "\<exists>c. SignalDisplay ascii_lib (JObj [(''action'', JStr ''SELL''), (''timeframe'', JStr ''4h'')])
             = Inr (SignalCard c)
          \<and> indicator_className c = ''signal-indicator sell''
          \<and> action_className c = ''sell-signal ''
          \<and> action_text c = JStr ''SELL''"
    by (auto simp: getStrengthClass_def)
  from signal_action_classification [of "JObj [(''current_price'', JNum 1900)]" ascii_lib JNull] hold
  have h: "\<exists>c. SignalDisplay ascii_lib (JObj [(''current_price'', JNum 1900)]) = Inr (SignalCard c)
          \<and> indicator_className c = ''signal-indicator hold''
          \<and> action_className c = ''hold-signal ''
          \<and> action_text c = JStr ''HOLD''"
    by (auto simp: getStrengthClass_def)
  from buy run s h show ?thesis by blast
qed

text \<open>
  C9 as stated fails: it holds of the signals that are rendered as a card, not of every
  signal. A BUY signal that carries an error message gets the fallback, and a BUY
  signal whose \<open>timeframe\<close> is the number 5 is not rendered; neither is styled as BUY.
\<close>

theorem signal_action_counterexample:
  "prop_of (JObj [(''action'', JStr ''BUY''), (''error'', JStr ''stale data'')]) ''action'' = JStr ''BUY''
   \<and> SignalDisplay ascii_lib (JObj [(''action'', JStr ''BUY''), (''error'', JStr ''stale data'')])
       = Inr NoSignalData
   \<and> prop_of (JObj [(''action'', JStr ''BUY''), (''timeframe'', JNum 5)]) ''action'' = JStr ''BUY''
   \<and> SignalDisplay ascii_lib (JObj [(''action'', JStr ''BUY''), (''timeframe'', JNum 5)])
       = Inl TypeError"
  by (simp add: display_defs)

section \<open>PriceChart: the prediction line\<close>






section \<open>ZerodhaAuth: the token exchange\<close>

lemma handleAuth_no_token:
  assumes "\<not> truthy (params_get params ''request_token'')"
  shows "handleAuth srv params (st, calls) =
           (st \<lparr> auth_error := Some ''No request token found in the URL. Authentication failed.'',
                 auth_loading := False \<rparr>, calls)"
  using assms by (simp add: handleAuth_def Let_def)

lemma handleAuth_token:
  assumes "truthy (params_get params ''request_token'')"
  shows "snd (handleAuth srv params (st, calls)) =
           calls @ [zerodhaCallback (params_get params ''request_token'')]"
  using assms by (simp add: handleAuth_def Let_def split: reply.splits)

lemma truthy_params_get:
  "truthy (params_get params name) \<longleftrightarrow> (\<exists>t. t \<noteq> [] \<and> map_of params name = Some t)"
  by (auto simp: params_get_def split: option.splits)

text \<open>
  C6. An OAuth callback whose query has no \<open>request_token\<close> parameter ends in the
  error message, with no call made and neither success nor redirect set. The token
  exchange \<open>zerodhaCallback\<close> is attempted exactly when a request token is present,
  that is, when the first \<open>request_token\<close> value is a non-empty string, and then it is
  the only call, made with that token. (An empty value is no token: \<open>!requestToken\<close>.)
\<close>

theorem token_exchange_needs_token:
  assumes "handleAuth srv params (st, calls) = (st', calls')"
  shows "(map_of params ''request_token'' = None \<longrightarrow>
            calls' = calls \<and>
            auth_error st' = Some ''No request token found in the URL. Authentication failed.'' \<and>
            auth_success st' = auth_success st \<and> auth_redirect st' = auth_redirect st)
         \<and> (calls' \<noteq> calls \<longleftrightarrow> (\<exists>t. t \<noteq> [] \<and> map_of params ''request_token'' = Some t))
         \<and> (\<forall>t. t \<noteq> [] \<and> map_of params ''request_token'' = Some t \<longrightarrow>
               calls' = calls @ [zerodhaCallback (JStr t)])"
proof (cases "truthy (params_get params ''request_token'')")
  case True
  then obtain t where t: "t \<noteq> []" "map_of params ''request_token'' = Some t"
    using truthy_params_get by blast
  from handleAuth_token [OF True, of srv st calls] assms t
  have "calls' = calls @ [zerodhaCallback (JStr t)]"
    by (simp add: params_get_def)
  with t show ?thesis by auto
next
  case False
  from handleAuth_no_token [OF False, of srv st calls] assms
  have "calls' = calls"
    and "st' = st \<lparr> auth_error := Some ''No request token found in the URL. Authentication failed.'',
                     auth_loading := False \<rparr>"
    by simp_all
  with False show ?thesis
    by (auto simp: truthy_params_get)
qed

theorem token_exchange_needs_token_witness:
  "handleAuth (\<lambda>calls c. Resolved JNull) [(''status'', ''success'')] (auth_init, []) =
     (auth_init \<lparr> auth_error := Some ''No request token found in the URL. Authentication failed.'',
                  auth_loading := False \<rparr>, [])
   \<and> map_of [(''status'', ''success'')] ''request_token'' = None
   \<and> handleAuth (\<lambda>calls c. Resolved JNull)
         [(''status'', ''success''), (''request_token'', ''abc123'')] (auth_init, []) =
     (auth_init \<lparr> auth_success := True, auth_loading := False,
                  auth_redirect := Some (3000, ''/trading'') \<rparr>,
      [zerodhaCallback (JStr ''abc123'')])
   \<and> map_of [(''status'', ''success''), (''request_token'', ''abc123'')] ''request_token''
       = Some ''abc123''"
proof -
  have run: "handleAuth (\<lambda>calls c. Resolved JNull) [(''status'', ''success'')] (auth_init, []) =
     (auth_init \<lparr> auth_error := Some ''No request token found in the URL. Authentication failed.'',
                  auth_loading := False \<rparr>, [])"
    by (simp add: handleAuth_def params_get_def Let_def)
  have none: "map_of [(''status'', ''success'')] ''request_token'' = None"
    by simp
  have run2: "handleAuth (\<lambda>calls c. Resolved JNull)
         [(''status'', ''success''), (''request_token'', ''abc123'')] (auth_init, []) =
     (fst (handleAuth (\<lambda>calls c. Resolved JNull)
             [(''status'', ''success''), (''request_token'', ''abc123'')] (auth_init, [])),
      snd (handleAuth (\<lambda>calls c. Resolved JNull)
             [(''status'', ''success''), (''request_token'', ''abc123'')] (auth_init, [])))"
    by simp
  have some: "map_of [(''status'', ''success''), (''request_token'', ''abc123'')] ''request_token''
       = Some ''abc123''"
    by simp
  have st2: "fst (handleAuth (\<lambda>calls c. Resolved JNull)
             [(''status'', ''success''), (''request_token'', ''abc123'')] (auth_init, []))
       = auth_init \<lparr> auth_success := True, auth_loading := False,
                      auth_redirect := Some (3000, ''/trading'') \<rparr>"
    by (simp add: handleAuth_def params_get_def Let_def)
  from token_exchange_needs_token [OF run] token_exchange_needs_token [OF run2]
    run none some st2
  show ?thesis
    by (simp add: prod_eq_iff)
qed

section \<open>Trading: executing a trade\<close>

text \<open>
  C1. When the Zerodha login state is false, executing a trade issues no call at all,
  so no \<open>placeTradeFromSignal\<close>, and leaves the explicit error message; no success
  is reported and the submission is over.
\<close>

theorem execute_trade_requires_login:
  assumes "\<not> isLoggedIn (tr_zerodhaStatus st)"
    and "handleExecuteTrade lib srv action (st, calls) = (st', calls')"
  shows "calls' = calls
         \<and> tr_error st' = Some ''You must log in to Zerodha to execute trades.''
         \<and> tr_success st' = None \<and> \<not> tr_submitting st'"
  using assms by (auto simp: handleExecuteTrade_def Let_def)

lemma build_tradeData_levels:
  assumes "build_tradeData lib st action = Inr d"
  shows "prop_of d ''stop_loss'' =
           (if truthy (tr_tradeForm st ''useSignalLevels'') \<and> truthy (prop_of (tr_signal st) ''stop_loss'')
            then prop_of (tr_signal st) ''stop_loss'' else tr_tradeForm st ''stopLoss'')"
    and "prop_of d ''take_profit'' =
           (if truthy (tr_tradeForm st ''useSignalLevels'') \<and> truthy (prop_of (tr_signal st) ''take_profit'')
            then prop_of (tr_signal st) ''take_profit'' else tr_tradeForm st ''takeProfit'')"
    and "object_keys d =
           [''action'', ''timeframe'', ''quantity'', ''order_type'', ''stop_loss'', ''take_profit'']"
    and "prop_of d ''timeframe'' = tr_tradeForm st ''timeframe''"
    and "prop_of d ''action'' = action"
  using assms
  by (cases "tr_signal st";
      auto simp: build_tradeData_def trade_level_def Let_def bindE_Inr_iff split: if_splits)+

lemma handleExecuteTrade_calls:
  "snd (handleExecuteTrade lib srv action (st, calls)) = calls \<or>
   (\<exists>d. isLoggedIn (tr_zerodhaStatus st) \<and> build_tradeData lib st action = Inr d \<and>
        (snd (handleExecuteTrade lib srv action (st, calls)) = calls @ [placeTradeFromSignal d] \<or>
         snd (handleExecuteTrade lib srv action (st, calls)) =
           calls @ [placeTradeFromSignal d, getZerodhaOrders]))"
  by (auto simp: handleExecuteTrade_def Let_def split: sum.splits reply.splits)

text \<open>
  C2, as the code has it. In every signal trade that is sent, each of the two levels is
  chosen on its own: the signal's level when \<open>useSignalLevels\<close> is set and that level
  is truthy, and the form's level (\<open>tradeForm.stopLoss\<close>, \<open>tradeForm.takeProfit\<close>)
  otherwise, that is, when the user overrides or when the signal's level is missing,
  \<open>null\<close> or zero.
\<close>

theorem trade_levels_sent:
  assumes "snd (handleExecuteTrade lib srv action (st, calls)) =
             calls @ placeTradeFromSignal tradeData # rest"
  shows "isLoggedIn (tr_zerodhaStatus st)
         \<and> prop_of tradeData ''stop_loss'' =
           (if truthy (tr_tradeForm st ''useSignalLevels'') \<and> truthy (prop_of (tr_signal st) ''stop_loss'')
            then prop_of (tr_signal st) ''stop_loss'' else tr_tradeForm st ''stopLoss'')
         \<and> prop_of tradeData ''take_profit'' =
           (if truthy (tr_tradeForm st ''useSignalLevels'') \<and> truthy (prop_of (tr_signal st) ''take_profit'')
            then prop_of (tr_signal st) ''take_profit'' else tr_tradeForm st ''takeProfit'')"
proof -
  from handleExecuteTrade_calls [of lib srv action st calls] assms
  obtain d where "isLoggedIn (tr_zerodhaStatus st)" "build_tradeData lib st action = Inr d"
    "d = tradeData"
    by auto
  with build_tradeData_levels(1,2) [of lib st action d] show ?thesis by simp
qed

lemmas trading_defs =
  trading_run_def tr_fetchData_def fetch_account_def handleExecuteTrade_def build_tradeData_def
  trade_level_def handleFormChange_def handleTimeframeChange_def handleZerodhaLogin_def
  trading_init_def tradeForm_init_def not_logged_in_def broker_with_signal_def ascii_lib_def
  template_def trade_failed_def Let_def

theorem execute_trade_requires_login_witness:
  "\<not> isLoggedIn (tr_zerodhaStatus trading_init)
   \<and> snd (handleExecuteTrade ascii_lib (broker_with_signal JNull) (JStr ''BUY'') (trading_init, [])) = []
   \<and> tr_error (fst (handleExecuteTrade ascii_lib (broker_with_signal JNull) (JStr ''BUY'')
                        (trading_init, [])))
       = Some ''You must log in to Zerodha to execute trades.''"
proof -
  have off: "\<not> isLoggedIn (tr_zerodhaStatus trading_init)"
    by (simp add: trading_init_def not_logged_in_def)
  from execute_trade_requires_login
         [OF off surjective_pairing, of ascii_lib "broker_with_signal JNull" "JStr ''BUY''" "[]"] off
  show ?thesis by simp
qed

text \<open>
  C2 as stated fails twice, each time with \<open>useSignalLevels\<close> set when the trade is
  sent. The user unticks the box, types the stop loss 1850 and ticks the box again.
  With a signal whose \<open>stop_loss\<close> is 0 (not \<open>null\<close>) and whose \<open>take_profit\<close> is 2000,
  the order carries the typed 1850, not the signal's level. With a HOLD signal, whose
  levels are \<open>null\<close>, the typed level is sent although the user does not override.
\<close>

theorem trade_levels_counterexample:
  "snd (trading_run ascii_lib
          (broker_with_signal
             (JObj [(''action'', JStr ''BUY''), (''stop_loss'', JNum 0), (''take_profit'', JNum 2000)]))
          [Mount, CheckUseSignalLevels False, ChangeStopLoss ''1850'',
           CheckUseSignalLevels True, ClickBuy])
     = [getZerodhaProfile, getZerodhaMargins, getZerodhaOrders, getZerodhaPositions,
        getSignal (JStr ''1h''),
        placeTradeFromSignal
          (JObj [(''action'', JStr ''BUY''), (''timeframe'', JStr ''1h''),
                 (''quantity'', JNum 1), (''order_type'', JStr ''MARKET''),
                 (''stop_loss'', JStr ''1850''), (''take_profit'', JNum 2000)]),
        getZerodhaOrders]
   \<and> snd (trading_run ascii_lib
          (broker_with_signal
             (JObj [(''action'', JStr ''HOLD''), (''stop_loss'', JNull), (''take_profit'', JNull)]))
          [Mount, CheckUseSignalLevels False, ChangeStopLoss ''1850'',
           CheckUseSignalLevels True, ClickBuy])
     = [getZerodhaProfile, getZerodhaMargins, getZerodhaOrders, getZerodhaPositions,
        getSignal (JStr ''1h''),
        placeTradeFromSignal
          (JObj [(''action'', JStr ''BUY''), (''timeframe'', JStr ''1h''),
                 (''quantity'', JNum 1), (''order_type'', JStr ''MARKET''),
                 (''stop_loss'', JStr ''1850''), (''take_profit'', JNull)]),
        getZerodhaOrders]"
  by (simp add: trading_defs)

theorem trade_levels_sent_witness:
  "snd (handleExecuteTrade ascii_lib
          (broker_with_signal
             (JObj [(''action'', JStr ''BUY''), (''stop_loss'', JNum 1880), (''take_profit'', JNum 2000)]))
          (JStr ''BUY'')
          (trading_init
             \<lparr> tr_signal := JObj [(''action'', JStr ''BUY''), (''stop_loss'', JNum 1880),
                                (''take_profit'', JNum 2000)],
               tr_zerodhaStatus := \<lparr> isLoggedIn = True, profile = JNull, margins = JNull \<rparr> \<rparr>,
           [getSignal (JStr ''1h'')]))
     = [getSignal (JStr ''1h'')] @
       placeTradeFromSignal
         (JObj [(''action'', JStr ''BUY''), (''timeframe'', JStr ''1h''),
                (''quantity'', JNum 1), (''order_type'', JStr ''MARKET''),
                (''stop_loss'', JNum 1880), (''take_profit'', JNum 2000)])
       # [getZerodhaOrders]
   \<and> prop_of
        (JObj [(''action'', JStr ''BUY''), (''timeframe'', JStr ''1h''),
               (''quantity'', JNum 1), (''order_type'', JStr ''MARKET''),
               (''stop_loss'', JNum 1880), (''take_profit'', JNum 2000)]) ''stop_loss''
       = JNum 1880"
proof -
  have run: "snd (handleExecuteTrade ascii_lib
          (broker_with_signal
             (JObj [(''action'', JStr ''BUY''), (''stop_loss'', JNum 1880), (''take_profit'', JNum 2000)]))
          (JStr ''BUY'')
          (trading_init
             \<lparr> tr_signal := JObj [(''action'', JStr ''BUY''), (''stop_loss'', JNum 1880),
                                (''take_profit'', JNum 2000)],
               tr_zerodhaStatus := \<lparr> isLoggedIn = True, profile = JNull, margins = JNull \<rparr> \<rparr>,
           [getSignal (JStr ''1h'')]))
     = [getSignal (JStr ''1h'')] @
       placeTradeFromSignal
         (JObj [(''action'', JStr ''BUY''), (''timeframe'', JStr ''1h''),
                (''quantity'', JNum 1), (''order_type'', JStr ''MARKET''),
                (''stop_loss'', JNum 1880), (''take_profit'', JNum 2000)])
       # [getZerodhaOrders]"
    by (simp add: trading_defs)
  from trade_levels_sent [OF run] run show ?thesis
    by (simp add: trading_init_def tradeForm_init_def)
qed

section \<open>Predictions: the accuracy metrics\<close>

lemma show_nat_numeral [simp]:
  "show_nat (numeral k) =
     (if (numeral k :: nat) < 10 then [digit_char (numeral k)]
      else show_nat (numeral k div 10) @ [digit_char (numeral k mod 10)])"
  by (rule show_nat.simps)

lemma show_nat_small [simp]: "show_nat 0 = ''0''" "show_nat 1 = ''1''" "show_nat (Suc 0) = ''1''"
  by (simp_all add: show_nat.simps digit_char_def)

text \<open>
  C3, as the code has it. The metrics are not computed from the responses. A fetch
  that ends without error on a truthy predictions response of positive length sets
  them from four fresh draws of \<open>Math.random()\<close>: MAE from \<open>r * 10\<close>, MSE from
  \<open>r * 100\<close>, RMSE from \<open>r * 15\<close> and accuracy from \<open>75 + r * 15\<close>, the products and
  the sum being those of the doubles, each written by \<open>toFixed(2)\<close>. Any other fetch
  leaves them as they were. So the metrics are a function of the four draws, and of
  nothing in the responses but whether the predictions are non-empty.
\<close>

theorem accuracy_metrics_random:
  assumes "pred_fetchData lib srv rnd (st, calls, k) = (st', calls', k')"
  shows "(if pred_error st' = None \<and> truthy (pred_predictions st') \<and>
               greater_than_zero lib (prop_of (pred_predictions st') ''length'')
          then pred_accuracy st' = Some (random_accuracy lib rnd k) \<and> k' = k + 4
          else pred_accuracy st' = pred_accuracy st \<and> k' = k)"
  using assms
  by (auto simp: pred_fetchData_def pred_failed_def Let_def split: reply.splits if_splits)

lemmas pred_defs =
  pred_run_def pred_step_def pred_fetchData_def pred_failed_def pred_init_def forecast_server_def
  random_accuracy_def greater_than_zero_def ascii_lib_def toFixed_js_def Let_def

lemma toFixed_samples:
  "toFixed 2 0 = ''0.00''" "toFixed 2 (25/2) = ''12.50''" "toFixed 2 (15/4) = ''3.75''"
  "toFixed 2 (645/8) = ''80.63''" "toFixed 2 5 = ''5.00''" "toFixed 2 (125/2) = ''62.50''"
  "toFixed 2 (45/4) = ''11.25''" "toFixed 2 (705/8) = ''88.13''"
  by (simp_all add: toFixed_def pad_zeros_def digit_char_def)

text \<open>
  C3 as stated fails: the page is mounted and then refreshed against a backend that
  gives the same two responses each time, and the metrics shown differ. The draws are
  0, 1/8, ..., 7/8; every product and sum taken of them is a double, so the exact
  arithmetic of the stand-in library is that of the program.
\<close>

theorem accuracy_metrics_counterexample:
  "pred_accuracy (fst (pred_run ascii_lib forecast_server (\<lambda>n. real n / 8) [PredMount]))
     = Some \<lparr> mae = ''0.00'', mse = ''12.50'', rmse = ''3.75'', accuracy = ''80.63'' \<rparr>
   \<and> pred_accuracy (fst (pred_run ascii_lib forecast_server (\<lambda>n. real n / 8) [PredMount, PredRefresh]))
     = Some \<lparr> mae = ''5.00'', mse = ''62.50'', rmse = ''11.25'', accuracy = ''88.13'' \<rparr>
   \<and> pred_priceData (fst (pred_run ascii_lib forecast_server (\<lambda>n. real n / 8) [PredMount, PredRefresh]))
     = pred_priceData (fst (pred_run ascii_lib forecast_server (\<lambda>n. real n / 8) [PredMount]))
   \<and> pred_predictions (fst (pred_run ascii_lib forecast_server (\<lambda>n. real n / 8) [PredMount, PredRefresh]))
     = pred_predictions (fst (pred_run ascii_lib forecast_server (\<lambda>n. real n / 8) [PredMount]))"
  by (simp add: pred_defs toFixed_samples)

theorem accuracy_metrics_random_witness:
  "pred_error (fst (pred_fetchData ascii_lib forecast_server (\<lambda>n. real n / 8) (pred_init, [], 0))) = None
   \<and> pred_accuracy (fst (pred_fetchData ascii_lib forecast_server (\<lambda>n. real n / 8) (pred_init, [], 0)))
       = Some (random_accuracy ascii_lib (\<lambda>n. real n / 8) 0)
   \<and> snd (snd (pred_fetchData ascii_lib forecast_server (\<lambda>n. real n / 8) (pred_init, [], 0))) = 4"
proof -
  have ok: "pred_error (fst (pred_fetchData ascii_lib forecast_server (\<lambda>n. real n / 8) (pred_init, [], 0))) = None"
    "truthy (pred_predictions (fst (pred_fetchData ascii_lib forecast_server (\<lambda>n. real n / 8) (pred_init, [], 0))))"
    "greater_than_zero ascii_lib
       (prop_of (pred_predictions (fst (pred_fetchData ascii_lib forecast_server (\<lambda>n. real n / 8) (pred_init, [], 0)))) ''length'')"
    by (simp_all add: pred_fetchData_def pred_init_def forecast_server_def greater_than_zero_def Let_def)
  have pair: "pred_fetchData ascii_lib forecast_server (\<lambda>n. real n / 8) (pred_init, [], 0) =
     (fst (pred_fetchData ascii_lib forecast_server (\<lambda>n. real n / 8) (pred_init, [], 0)),
      fst (snd (pred_fetchData ascii_lib forecast_server (\<lambda>n. real n / 8) (pred_init, [], 0))),
      snd (snd (pred_fetchData ascii_lib forecast_server (\<lambda>n. real n / 8) (pred_init, [], 0))))"
    by simp
  from accuracy_metrics_random [OF pair] ok show ?thesis by simp
qed

section \<open>The fusion rule\<close>

lemma non_neutral_counts2:
  "length (filter (\<lambda>v. v = VoteBuy) (non_neutral votes)) = count_list votes VoteBuy
   \<and> length (filter (\<lambda>v. v = VoteSell) (non_neutral votes)) = count_list votes VoteSell
   \<and> length (non_neutral votes) = count_list votes VoteBuy + count_list votes VoteSell"
proof (induction votes)
  case Nil
  show ?case by (simp add: non_neutral_def)
next
  case (Cons v vs)
  then show ?case by (cases v) (simp_all add: non_neutral_def)
qed

lemma fuse_counts:
  "fuse votes =
      (if count_list votes VoteSell < count_list votes VoteBuy then ActionBuy
       else if count_list votes VoteBuy < count_list votes VoteSell then ActionSell
       else ActionHold)"
  using non_neutral_counts2 [of votes] by (auto simp: fuse_def Let_def)

lemma engine_action: "fs_action (SignalFusionEngine cfg tf p i f) = fuse (map snd (cast_votes p i f))"
  by (simp add: SignalFusionEngine_def Let_def)

lemma engine_votes: "fs_component_votes (SignalFusionEngine cfg tf p i f) = cast_votes p i f"
  by (simp add: SignalFusionEngine_def Let_def)

text \<open>Inputs that make the four voters cast any given votes.\<close>

lemma every_combination_cast:
  "\<exists>p i f. map snd (cast_votes p i f) = [v1, v2, v3, v4]"
proof -
  define i where "i =
    \<lparr> ind_timestamp = 0, ind_sma_20 = 100, ind_ema_12 = 100, ind_ema_26 = 100,
      ind_rsi_14 = (case v1 of VoteBuy \<Rightarrow> 20 | VoteSell \<Rightarrow> 80 | VoteNeutral \<Rightarrow> 50),
      ind_macd = 0, ind_macd_signal = 0,
      ind_macd_histogram = (case v2 of VoteBuy \<Rightarrow> 1 | VoteSell \<Rightarrow> -1 | VoteNeutral \<Rightarrow> 0),
      ind_bb_upper = (case v3 of VoteBuy \<Rightarrow> 110 | VoteSell \<Rightarrow> 95 | VoteNeutral \<Rightarrow> 110),
      ind_bb_middle = 100,
      ind_bb_lower = (case v3 of VoteBuy \<Rightarrow> 105 | VoteSell \<Rightarrow> 90 | VoteNeutral \<Rightarrow> 90) \<rparr>"
  define f where "f =
    \<lparr> fp_timestamp = 1,
      fp_predicted_close = (case v4 of VoteBuy \<Rightarrow> 101 | VoteSell \<Rightarrow> 99 | VoteNeutral \<Rightarrow> (100::real)),
      fp_model_version = ''v1'' \<rparr>"
  have 1: "rsi_vote i = v1" by (cases v1) (simp_all add: rsi_vote_def i_def)
  have 2: "macd_vote i = v2" by (cases v2) (simp_all add: macd_vote_def i_def)
  have 3: "bollinger_vote 100 i = v3" by (cases v3) (simp_all add: bollinger_vote_def i_def)
  have 4: "forecast_vote 100 f = v4" by (cases v4) (simp_all add: forecast_vote_def f_def)
  have "map snd (cast_votes 100 i f) = [v1, v2, v3, v4]"
    by (simp add: cast_votes_def 1 2 3 4)
  then show ?thesis
    by (intro exI)
qed

text \<open>
  C5, on SignalFusionEngine as the spec words it. For every price, indicator snapshot
  and forecast, the signal lists the votes of the four voters, and its action is BUY
  exactly when the BUY votes outnumber the SELL votes, SELL exactly when the SELL
  votes outnumber the BUY votes, and HOLD exactly on a tie; neutral votes do not
  count. Every combination of four votes is cast by some price, snapshot and forecast.
  The action is a function of the price, the snapshot's indicators and the predicted
  close alone: the configuration, the timeframe, the timestamps and the model version
  do not change it. The same holds of the fusion of any list of votes, and 2 BUY
  against 2 SELL gives HOLD.
\<close>

theorem fusion_majority:
  "fs_component_votes (SignalFusionEngine cfg tf p i f) =
     [(''rsi'', rsi_vote i), (''macd'', macd_vote i),
      (''bollinger'', bollinger_vote p i), (''forecast'', forecast_vote p f)]
   \<and> (fs_action (SignalFusionEngine cfg tf p i f) = ActionBuy \<longleftrightarrow>
        count_list (map snd (fs_component_votes (SignalFusionEngine cfg tf p i f))) VoteSell
          < count_list (map snd (fs_component_votes (SignalFusionEngine cfg tf p i f))) VoteBuy)
   \<and> (fs_action (SignalFusionEngine cfg tf p i f) = ActionSell \<longleftrightarrow>
        count_list (map snd (fs_component_votes (SignalFusionEngine cfg tf p i f))) VoteBuy
          < count_list (map snd (fs_component_votes (SignalFusionEngine cfg tf p i f))) VoteSell)
   \<and> (fs_action (SignalFusionEngine cfg tf p i f) = ActionHold \<longleftrightarrow>
        count_list (map snd (fs_component_votes (SignalFusionEngine cfg tf p i f))) VoteBuy
          = count_list (map snd (fs_component_votes (SignalFusionEngine cfg tf p i f))) VoteSell)
   \<and> (\<exists>p' i' f'. map snd (fs_component_votes (SignalFusionEngine cfg tf p' i' f')) = [v1, v2, v3, v4])
   \<and> fs_action (SignalFusionEngine cfg' tf'  p
                  (i \<lparr> ind_timestamp := t \<rparr>) (f \<lparr> fp_timestamp := t', fp_model_version := mv \<rparr>))
       = fs_action (SignalFusionEngine cfg tf p i f)
   \<and> (fuse votes = ActionBuy \<longleftrightarrow> count_list votes VoteSell < count_list votes VoteBuy)
   \<and> (fuse votes = ActionSell \<longleftrightarrow> count_list votes VoteBuy < count_list votes VoteSell)
   \<and> (fuse votes = ActionHold \<longleftrightarrow> count_list votes VoteBuy = count_list votes VoteSell)
   \<and> fuse [VoteBuy, VoteBuy, VoteSell, VoteSell] = ActionHold
   \<and> fuse (non_neutral votes) = fuse votes"
proof -
  have nn: "count_list (non_neutral votes) VoteBuy = count_list votes VoteBuy"
    "count_list (non_neutral votes) VoteSell = count_list votes VoteSell"
    by (induction votes) (auto simp: non_neutral_def)
  have pure: "cast_votes p (i \<lparr> ind_timestamp := t \<rparr>) (f \<lparr> fp_timestamp := t', fp_model_version := mv \<rparr>)
      = cast_votes p i f"
    by (simp add: cast_votes_def rsi_vote_def macd_vote_def bollinger_vote_def forecast_vote_def)
  have votes: "fs_component_votes (SignalFusionEngine cfg tf p i f) =
     [(''rsi'', rsi_vote i), (''macd'', macd_vote i),
      (''bollinger'', bollinger_vote p i), (''forecast'', forecast_vote p f)]"
    by (simp add: engine_votes cast_votes_def)
  have ex: "\<exists>p' i' f'. map snd (fs_component_votes (SignalFusionEngine cfg tf p' i' f')) = [v1, v2, v3, v4]"
    using every_combination_cast [of v1 v2 v3 v4] by (simp add: engine_votes)
  have act: "fs_action (SignalFusionEngine cfg tf p i f) =
      (if count_list (map snd (cast_votes p i f)) VoteSell < count_list (map snd (cast_votes p i f)) VoteBuy
       then ActionBuy
       else if count_list (map snd (cast_votes p i f)) VoteBuy < count_list (map snd (cast_votes p i f)) VoteSell
       then ActionSell else ActionHold)"
    by (simp only: engine_action fuse_counts)
  have tie: "fuse [VoteBuy, VoteBuy, VoteSell, VoteSell] = ActionHold"
    by (simp add: fuse_counts)
  have f1: "(fuse votes = ActionBuy \<longleftrightarrow> count_list votes VoteSell < count_list votes VoteBuy)
   \<and> (fuse votes = ActionSell \<longleftrightarrow> count_list votes VoteBuy < count_list votes VoteSell)
   \<and> (fuse votes = ActionHold \<longleftrightarrow> count_list votes VoteBuy = count_list votes VoteSell)"
    by (simp add: fuse_counts)
  have f2: "fuse (non_neutral votes) = fuse votes"
    by (simp add: fuse_counts nn)
  have a1: "(fs_action (SignalFusionEngine cfg tf p i f) = ActionBuy \<longleftrightarrow>
        count_list (map snd (fs_component_votes (SignalFusionEngine cfg tf p i f))) VoteSell
          < count_list (map snd (fs_component_votes (SignalFusionEngine cfg tf p i f))) VoteBuy)
   \<and> (fs_action (SignalFusionEngine cfg tf p i f) = ActionSell \<longleftrightarrow>
        count_list (map snd (fs_component_votes (SignalFusionEngine cfg tf p i f))) VoteBuy
          < count_list (map snd (fs_component_votes (SignalFusionEngine cfg tf p i f))) VoteSell)
   \<and> (fs_action (SignalFusionEngine cfg tf p i f) = ActionHold \<longleftrightarrow>
        count_list (map snd (fs_component_votes (SignalFusionEngine cfg tf p i f))) VoteBuy
          = count_list (map snd (fs_component_votes (SignalFusionEngine cfg tf p i f))) VoteSell)"
    unfolding engine_votes act by auto
  have indep: "fs_action (SignalFusionEngine cfg' tf'  p
                  (i \<lparr> ind_timestamp := t \<rparr>) (f \<lparr> fp_timestamp := t', fp_model_version := mv \<rparr>))
       = fs_action (SignalFusionEngine cfg tf p i f)"
    by (simp only: engine_action pure)
  from votes a1 ex indep f1 tie f2 show ?thesis by blast
qed

section \<open>The gateway: order submission\<close>







section \<open>Timeframes\<close>

lemma check_choice: "check_timeframe (choice_value ch) = Inr (choice_value ch)"
  by (cases ch) (simp_all add: check_timeframe_def recognized_timeframes_def)

lemma timeframe_ok_choice:
  "timeframe_ok (getSignal (JStr (choice_value ch)))"
  "timeframe_ok (getPredictions (JStr (choice_value ch)))"
  "timeframe_ok (getPriceData (JStr (choice_value ch)) l)"
  "prop_of d ''timeframe'' = JStr (choice_value ch) \<Longrightarrow> timeframe_ok (placeTradeFromSignal d)"
  by (simp_all add: timeframe_ok_def default_arg_def check_choice)

lemma timeframe_ok_plain:
  "timeframe_ok updateData" "timeframe_ok getAllSignals" "timeframe_ok getZerodhaLoginUrl"
  "timeframe_ok getZerodhaProfile" "timeframe_ok getZerodhaMargins"
  "timeframe_ok getZerodhaOrders" "timeframe_ok getZerodhaPositions"
  by (simp_all add: timeframe_ok_def)

text \<open>The invariant of the Trading page.\<close>

lemma fetch_account_inv:
  assumes "trading_inv (st, calls)"
  shows "trading_inv (fetch_account srv (st, calls))"
    and "tr_tradeForm (fst (fetch_account srv (st, calls))) = tr_tradeForm st"
  using assms
  by (auto simp: trading_inv_def fetch_account_def Let_def timeframe_ok_plain
      split: reply.splits)

lemma tr_fetchData_inv:
  assumes "trading_inv w"
  shows "trading_inv (tr_fetchData srv w)"
proof -
  obtain st calls where w: "w = (st, calls)" by (cases w)
  obtain st2 calls2 where f: "fetch_account srv (st\<lparr>tr_loading := True, tr_error := None\<rparr>, calls) = (st2, calls2)"
    by (cases "fetch_account srv (st\<lparr>tr_loading := True, tr_error := None\<rparr>, calls)")
  from assms w have i0: "trading_inv (st\<lparr>tr_loading := True, tr_error := None\<rparr>, calls)"
    by (simp add: trading_inv_def)
  from fetch_account_inv [OF i0, of srv] f
  have i2: "trading_inv (st2, calls2)" and tf: "tr_tradeForm st2 = tr_tradeForm st"
    by simp_all
  from assms w obtain ch where ch: "tr_tradeForm st ''timeframe'' = JStr (choice_value ch)"
    by (auto simp: trading_inv_def)
  show ?thesis
    using i2 tf ch
    by (auto simp: w tr_fetchData_def f Let_def trading_inv_def timeframe_ok_choice
        split: reply.splits)
qed

lemma handleZerodhaLogin_inv:
  "trading_inv w \<Longrightarrow> trading_inv (handleZerodhaLogin srv w)"
  by (cases w)
     (auto simp: handleZerodhaLogin_def trading_inv_def Let_def timeframe_ok_plain
      split: reply.splits sum.splits)

lemma handleTimeframeChange_inv:
  "trading_inv w \<Longrightarrow> trading_inv (handleTimeframeChange srv (JStr (choice_value ch)) w)"
  by (cases w)
     (auto simp: handleTimeframeChange_def trading_inv_def Let_def timeframe_ok_choice
      split: reply.splits)

lemma handleFormChange_inv:
  "trading_inv w \<Longrightarrow> name \<noteq> ''timeframe'' \<Longrightarrow>
   trading_inv (handleFormChange name v ty b (fst w), snd w)"
  by (auto simp: handleFormChange_def trading_inv_def)

lemma handleExecuteTrade_inv:
  assumes "trading_inv w"
  shows "trading_inv (handleExecuteTrade lib srv action w)"
proof -
  obtain st calls where w: "w = (st, calls)" by (cases w)
  from assms w obtain ch where ch: "tr_tradeForm st ''timeframe'' = JStr (choice_value ch)"
    and ok: "list_all timeframe_ok calls"
    by (auto simp: trading_inv_def)
  have form: "tr_tradeForm (fst (handleExecuteTrade lib srv action (st, calls))) = tr_tradeForm st"
    by (auto simp: handleExecuteTrade_def Let_def trade_failed_def split: sum.splits reply.splits)
  have d_ok: "timeframe_ok (placeTradeFromSignal d)" if "build_tradeData lib st action = Inr d" for d
    using build_tradeData_levels(4) [OF that] ch by (simp add: timeframe_ok_choice)
  from handleExecuteTrade_calls [of lib srv action st calls] ok d_ok
  have "list_all timeframe_ok (snd (handleExecuteTrade lib srv action (st, calls)))"
    by (auto simp: timeframe_ok_plain)
  with form ch show ?thesis
    by (auto simp: trading_inv_def w)
qed

lemma trading_step_inv:
  "trading_inv w \<Longrightarrow> trading_inv (trading_step lib srv w ev)"
  by (cases ev)
     (simp_all add: tr_fetchData_inv handleZerodhaLogin_inv handleTimeframeChange_inv
        handleFormChange_inv handleExecuteTrade_inv)

lemma foldl_inv:
  assumes "P w" and "\<And>w ev. P w \<Longrightarrow> P (step w ev)"
  shows "P (foldl step w evs)"
  using assms(1) by (induction evs arbitrary: w) (simp_all add: assms(2))

lemma trading_run_inv: "trading_inv (trading_run lib srv evs)"
  unfolding trading_run_def
proof (rule foldl_inv)
  have "\<exists>ch. tr_tradeForm trading_init ''timeframe'' = JStr (choice_value ch)"
    by (rule exI [of _ Choice1h]) (simp add: trading_init_def tradeForm_init_def)
  then show "trading_inv (trading_init, [])"
    by (simp add: trading_inv_def)
qed (rule trading_step_inv)

text \<open>The invariant of the Predictions page.\<close>

lemma pred_fetchData_inv: "pred_inv w \<Longrightarrow> pred_inv (pred_fetchData lib srv rnd w)"
  by (cases w)
     (auto simp: pred_inv_def pred_fetchData_def pred_failed_def Let_def timeframe_ok_choice
      split: reply.splits)

lemma pred_step_inv: "pred_inv w \<Longrightarrow> pred_inv (pred_step lib srv rnd w ev)"
proof -
  assume inv: "pred_inv w"
  obtain st calls k where w: "w = (st, calls, k)" by (cases w)
  have sel: "pred_inv (st\<lparr>pred_selectedTimeframe := JStr (choice_value ch)\<rparr>, calls, k)" for ch
    using inv w by (auto simp: pred_inv_def)
  show ?thesis
    using inv pred_fetchData_inv [OF inv] pred_fetchData_inv [OF sel]
    by (cases ev) (auto simp: pred_step_def w)
qed

lemma pred_run_inv: "pred_inv (pred_run lib srv rnd evs)"
  unfolding pred_run_def
proof (rule foldl_inv)
  have "\<exists>ch. pred_selectedTimeframe pred_init = JStr (choice_value ch)"
    by (rule exI [of _ Choice1h]) (simp add: pred_init_def)
  then show "pred_inv (pred_init, [], 0)"
    by (simp add: pred_inv_def)
qed (rule pred_step_inv)

text \<open>The invariant of the Dashboard page.\<close>

lemma fetchDashboardData_inv:
  "dash_inv w \<Longrightarrow> dash_inv (fetchDashboardData srv (JStr (choice_value ch)) w)"
  by (cases w)
     (auto simp: dash_inv_def fetchDashboardData_def dash_failed_def Let_def timeframe_ok_choice
      split: reply.splits)

lemma dash_handleRefresh_inv: "dash_inv w \<Longrightarrow> dash_inv (dash_handleRefresh srv w)"
proof -
  assume inv: "dash_inv w"
  then obtain ch where "dash_selectedTimeframe (fst w) = JStr (choice_value ch)"
    by (auto simp: dash_inv_def)
  with fetchDashboardData_inv [OF inv, of srv ch] show ?thesis
    by (simp add: dash_handleRefresh_def)
qed

lemma dash_handleUpdateData_inv: "dash_inv w \<Longrightarrow> dash_inv (dash_handleUpdateData srv w)"
proof -
  assume inv: "dash_inv w"
  obtain st calls where w: "w = (st, calls)" by (cases w)
  from inv w have "dash_inv (st\<lparr>dash_loading := True\<rparr>, calls @ [updateData])"
    by (auto simp: dash_inv_def timeframe_ok_plain)
  from dash_handleRefresh_inv [OF this, of srv] inv w show ?thesis
    by (auto simp: dash_handleUpdateData_def Let_def dash_inv_def timeframe_ok_plain
        split: reply.splits)
qed

lemma dash_handleTimeframeChange_inv:
  "dash_inv w \<Longrightarrow> dash_inv (dash_handleTimeframeChange srv (JStr (choice_value ch)) w)"
proof -
  assume inv: "dash_inv w"
  obtain st calls where w: "w = (st, calls)" by (cases w)
  from inv w have "dash_inv (st\<lparr>dash_selectedTimeframe := JStr (choice_value ch)\<rparr>, calls)"
    by (auto simp: dash_inv_def)
  then have 1: "dash_inv (fetchDashboardData srv (JStr (choice_value ch))
                   (st\<lparr>dash_selectedTimeframe := JStr (choice_value ch)\<rparr>, calls))"
    by (rule fetchDashboardData_inv)
  then have 2: "dash_inv (fetchDashboardData srv (JStr (choice_value ch))
                   (fetchDashboardData srv (JStr (choice_value ch))
                     (st\<lparr>dash_selectedTimeframe := JStr (choice_value ch)\<rparr>, calls)))"
    by (rule fetchDashboardData_inv)
  from 1 2 show ?thesis
    by (simp add: dash_handleTimeframeChange_def w Let_def)
qed

lemma dash_step_inv: "dash_inv w \<Longrightarrow> dash_inv (dash_step srv w ev)"
proof (cases ev)
  case DashMount
  assume "dash_inv w"
  from dash_handleRefresh_inv [OF this, of srv] DashMount show ?thesis
    by (simp add: dash_handleRefresh_def)
next
  case DashTogglePredictions
  assume "dash_inv w"
  with DashTogglePredictions show ?thesis by (simp add: dash_inv_def)
qed (simp_all add: dash_handleTimeframeChange_inv dash_handleRefresh_inv dash_handleUpdateData_inv)

lemma dash_run_inv: "dash_inv (dash_run srv evs)"
  unfolding dash_run_def
proof (rule foldl_inv)
  have "\<exists>ch. dash_selectedTimeframe dash_init = JStr (choice_value ch)"
    by (rule exI [of _ Choice1h]) (simp add: dash_init_def)
  then show "dash_inv (dash_init, [])"
    by (simp add: dash_inv_def)
qed (rule dash_step_inv)

text \<open>The invariant of the PriceData page.\<close>

lemma fetchPriceData_inv: "pd_inv w \<Longrightarrow> pd_inv (fetchPriceData srv w)"
  by (cases w)
     (auto simp: pd_inv_def fetchPriceData_def Let_def timeframe_ok_choice split: reply.splits)

lemma pd_handleUpdateData_inv: "pd_inv w \<Longrightarrow> pd_inv (pd_handleUpdateData srv w)"
proof -
  assume inv: "pd_inv w"
  obtain st calls where w: "w = (st, calls)" by (cases w)
  from inv w have "pd_inv (st\<lparr>pd_loading := True\<rparr>, calls @ [updateData])"
    by (auto simp: pd_inv_def timeframe_ok_plain)
  from fetchPriceData_inv [OF this, of srv] inv w show ?thesis
    by (auto simp: pd_handleUpdateData_def Let_def pd_inv_def timeframe_ok_plain
        split: reply.splits)
qed

lemma pd_step_inv: "pd_inv w \<Longrightarrow> pd_inv (pd_step srv w ev)"
proof -
  assume inv: "pd_inv w"
  have tf: "pd_inv ((fst w)\<lparr>pd_selectedTimeframe := JStr (choice_value ch)\<rparr>, snd w)" for ch
    using inv by (auto simp: pd_inv_def)
  have lim: "pd_inv ((fst w)\<lparr>pd_limit := l\<rparr>, snd w)" for l
    using inv by (auto simp: pd_inv_def)
  show ?thesis
    using inv fetchPriceData_inv [OF inv] fetchPriceData_inv [OF tf] fetchPriceData_inv [OF lim]
      pd_handleUpdateData_inv [OF inv]
    by (cases ev) auto
qed

lemma pd_run_inv: "pd_inv (pd_run srv evs)"
  unfolding pd_run_def
proof (rule foldl_inv)
  have "\<exists>ch. pd_selectedTimeframe pd_init = JStr (choice_value ch)"
    by (rule exI [of _ Choice1h]) (simp add: pd_init_def)
  then show "pd_inv (pd_init, [])"
    by (simp add: pd_inv_def)
qed (rule pd_step_inv)

text \<open>The invariant of the Signals page.\<close>

lemma fetchSignals_ok:
  "list_all timeframe_ok (snd w) \<Longrightarrow> list_all timeframe_ok (snd (fetchSignals srv w))"
  by (cases w) (auto simp: fetchSignals_def Let_def timeframe_ok_plain split: reply.splits)

lemma sig_step_ok:
  "list_all timeframe_ok (snd w) \<Longrightarrow> list_all timeframe_ok (snd (sig_step srv w ev))"
proof -
  assume ok: "list_all timeframe_ok (snd w)"
  obtain st calls where w: "w = (st, calls)" by (cases w)
  from ok w have "list_all timeframe_ok (snd (st\<lparr>sig_loading := True\<rparr>, calls @ [updateData]))"
    by (simp add: timeframe_ok_plain)
  from fetchSignals_ok [OF this, of srv] fetchSignals_ok [OF ok, of srv] ok w show ?thesis
    by (cases ev)
       (auto simp: sig_handleUpdateData_def Let_def timeframe_ok_plain split: reply.splits)
qed

lemma sig_run_ok: "list_all timeframe_ok (snd (sig_run srv evs))"
  unfolding sig_run_def
  by (rule foldl_inv [where P = "\<lambda>w. list_all timeframe_ok (snd w)"]) (simp_all add: sig_step_ok)

text \<open>
  C7. The core's check accepts exactly \<open>1h\<close>, \<open>4h\<close>, \<open>1d\<close> and \<open>1w\<close> and fails with
  InvalidTimeframe on any other value. The tabs of the Signals page are these four.
  Whatever the user does on the five pages and
  whatever the backend answers, every call the client makes that carries a
  timeframe (\<open>getPriceData\<close>, \<open>getPredictions\<close>, \<open>getSignal\<close>, \<open>placeTradeFromSignal\<close>)
  carries one of these four.
\<close>

theorem client_timeframes_recognized:
  "check_timeframe tf = (if tf \<in> {''1h'', ''4h'', ''1d'', ''1w''} then Inr tf else Inl InvalidTimeframe)
   \<and> list_all (\<lambda>t. check_timeframe t = Inr t) timeframes
   \<and> list_all timeframe_ok (snd (dash_run srv dash_events))
   \<and> list_all timeframe_ok (snd (pd_run srv pd_events))
   \<and> list_all timeframe_ok (fst (snd (pred_run lib srv rnd pred_events)))
   \<and> list_all timeframe_ok (snd (sig_run srv sig_events))
   \<and> list_all timeframe_ok (snd (trading_run lib srv trading_events))"
  using dash_run_inv [of srv dash_events] pd_run_inv [of srv pd_events]
    pred_run_inv [of lib srv rnd pred_events] sig_run_ok [of srv sig_events]
    trading_run_inv [of lib srv trading_events]
  by (simp add: check_timeframe_def recognized_timeframes_def timeframes_def dash_inv_def
      pd_inv_def pred_inv_def trading_inv_def)


end
